theory Spec2Isabelle
  imports Main "HOL-Library.Word" "HOL-Library.Finite_Map"
begin

section \<open>The session collector (functions/sessionCollector.js)\<close>

text \<open>
  The repository is one HTTP function, \<open>exports.handler\<close>, that records visitor data in
  Firestore under \<open>collection(websiteName).doc(fingerprint).collection('sessions')\<close>.
  The handler is embedded as a pure function of the event, the contents of the store and
  an environment that fixes what lies outside the source: the value the server assigns to
  \<open>serverTimestamp()\<close>, and which calls of the Firestore SDK fail for a reason that is
  not in the request. The calls the SDK always refuses (an \<open>undefined\<close> field, an array
  inside an array, \<open>arrayUnion()\<close> without an element, a path that is no document path) are
  part of the model.
\<close>

subsection \<open>JavaScript values\<close>

text \<open>
  A JavaScript string is a sequence of 16-bit code units. \<open>lit\<close> writes an ASCII literal
  of the source as such a string.
\<close>

type_synonym jsstring = "16 word list"

definition lit :: "string \<Rightarrow> jsstring" where
  "lit s = map of_char s"

text \<open>
  Numbers are IEEE doubles in JavaScript. \<open>Integer k\<close> is the number whose value is the
  integer \<open>k\<close> (\<open>Integer 0\<close> for both zeros). Every other number \<open>JSON.parse\<close> can return, a
  fraction or an infinity, is \<open>Other\<close> of a description the model keeps abstract; none of
  them is zero or \<open>NaN\<close>.
\<close>

datatype 'n number = Integer int | Other 'n

text \<open>
  The values \<open>JSON.parse\<close> returns. An object is a finite map from keys to values.
  \<open>undefined\<close> (a property that is absent) is \<open>None\<close> of \<open>'n json option\<close>.
\<close>

datatype 'n json =
    JNull
  | JBool bool
  | JNum "'n number"
  | JStr jsstring
  | JArr "'n json list"
  | JObj "(jsstring, 'n json) fmap"

text \<open>
  What the model takes from the JavaScript runtime: \<open>JSON.parse\<close>, and
  \<open>Number.prototype.toString\<close> on the numbers that are not integers of magnitude below
  \<open>2^53\<close> (see \<open>toString\<close>).
\<close>

record 'n runtime =
  JSON_parse :: "jsstring \<Rightarrow> 'n json option"  \<comment> \<open>\<open>None\<close>: throws SyntaxError\<close>
  Number_toString :: "'n number \<Rightarrow> jsstring"

text \<open>
  The conversion to a boolean that \<open>if (data && ...)\<close> and \<open>!action\<close> apply: \<open>undefined\<close>,
  \<open>null\<close>, \<open>false\<close>, zero and the empty string are falsy. (The language fixes it; the
  runtime is not consulted.)
\<close>

fun truthy :: "'n runtime \<Rightarrow> 'n json option \<Rightarrow> bool" where
  "truthy rt None = False"
| "truthy rt (Some JNull) = False"
| "truthy rt (Some (JBool b)) = b"
| "truthy rt (Some (JNum (Integer k))) = (k \<noteq> 0)"
| "truthy rt (Some (JNum (Other x))) = True"
| "truthy rt (Some (JStr s)) = (s \<noteq> [])"
| "truthy rt (Some (JArr xs)) = True"
| "truthy rt (Some (JObj m)) = True"

text \<open>
  Reading a property of the parsed body, as the destructuring of line 69 does. None of
  the six names is a property of a number, a boolean, a string or an array, so only an
  object can have them. (Destructuring \<open>null\<close> throws: see \<open>normalize\<close>.)
\<close>

fun property :: "'n json \<Rightarrow> jsstring \<Rightarrow> 'n json option" where
  "property (JObj m) k = fmlookup m k"
| "property b k = None"

text \<open>
  \<open>String.prototype.trim\<close> removes, at both ends, the code units that are WhiteSpace or
  LineTerminator in ECMAScript: TAB, LF, VT, FF, CR, SPACE, NBSP, U+1680, U+2000 to
  U+200A, U+2028, U+2029, U+202F, U+205F, U+3000 and U+FEFF.
\<close>

definition is_ws :: "16 word \<Rightarrow> bool" where
  "is_ws c \<longleftrightarrow>
     c = 0x09 \<or> c = 0x0A \<or> c = 0x0B \<or> c = 0x0C \<or> c = 0x0D \<or> c = 0x20 \<or> c = 0xA0 \<or>
     c = 0x1680 \<or> (0x2000 \<le> c \<and> c \<le> 0x200A) \<or> c = 0x2028 \<or> c = 0x2029 \<or>
     c = 0x202F \<or> c = 0x205F \<or> c = 0x3000 \<or> c = 0xFEFF"

definition trim :: "jsstring \<Rightarrow> jsstring" where
  "trim s = rev (dropWhile is_ws (rev (dropWhile is_ws s)))"

text \<open>
  The decimal digits of an integer, with a minus sign when it is negative: what
  \<open>Number.prototype.toString\<close> returns for an integer of magnitude below \<open>2^53\<close>.
\<close>

fun digits :: "nat \<Rightarrow> jsstring" where
  "digits n = (if n < 10 then [0x30 + of_nat n] else digits (n div 10) @ [0x30 + of_nat (n mod 10)])"

declare digits.simps [simp del]

definition decimal :: "int \<Rightarrow> jsstring" where
  "decimal n = (if n < 0 then 0x2D # digits (nat (- n)) else digits (nat n))"

text \<open>\<open>fingerprint.toString()\<close> of line 74.\<close>

definition toString :: "'n runtime \<Rightarrow> 'n number \<Rightarrow> jsstring" where
  "toString rt n =
     (case n of
        Integer k \<Rightarrow> if \<bar>k\<bar> < 2 ^ 53 then decimal k else Number_toString rt n
      | Other x \<Rightarrow> Number_toString rt n)"

subsection \<open>The store\<close>

text \<open>
  A session document, with the fields the handler writes (lines 127 to 134). \<open>endedAt\<close>
  is \<open>None\<close> for \<open>null\<close>; the handler reads a missing field (\<open>undefined\<close>) the same way.
  \<open>apiKey\<close> and \<open>tinyCode\<close> are stored as they were received.
\<close>

type_synonym timestamp = nat

record 'n session =
  apiKey :: "'n json option"
  tinyCode :: "'n json option"
  startedAt :: timestamp
  lastActivity :: timestamp
  endedAt :: "timestamp option"
  dataBatches :: "'n json list"

text \<open>
  The store maps the path of a \<open>sessions\<close> sub-collection, the list of its segments, to
  its documents, in the order of their creation. A document is identified by its
  position: \<open>sessionsCollRef.doc()\<close> makes an identifier that no other document has, so a
  new document is a new position.
\<close>

type_synonym path = "jsstring list"

type_synonym 'n store = "path \<Rightarrow> 'n session list"

text \<open>
  \<open>orderBy('startedAt', 'desc').limit(1).get()\<close>: the position and the data of a document
  with the greatest \<open>startedAt\<close>, \<open>None\<close> when the snapshot is empty. Among documents with
  the same \<open>startedAt\<close> the one created last is taken.
\<close>

fun latest :: "'n session list \<Rightarrow> (nat \<times> 'n session) option" where
  "latest [] = None"
| "latest (s # ss) =
     (case latest ss of
        None \<Rightarrow> Some (0, s)
      | Some (j, b) \<Rightarrow> if startedAt b < startedAt s then Some (0, s) else Some (Suc j, b))"

text \<open>
  \<open>FieldValue.arrayUnion(...elements)\<close> applied to the array in the document: each element
  that the array does not hold yet is added at its end, in the order given.
\<close>

definition arrayUnion :: "'a list \<Rightarrow> 'a list \<Rightarrow> 'a list" where
  "arrayUnion array elements = foldl (\<lambda>acc x. if x \<in> set acc then acc else acc @ [x]) array elements"

text \<open>
  The values Firestore stores: it refuses an array that is an element of an array, at
  any depth of the value. The flag says that the value is itself an element of an array.
  (\<open>storable_JArr\<close> and \<open>storable_JObj\<close> below give the two recursive cases in plain form.)
\<close>

primrec storable :: "'n json \<Rightarrow> bool \<Rightarrow> bool" where
  "storable JNull inArray = True"
| "storable (JBool b) inArray = True"
| "storable (JNum n) inArray = True"
| "storable (JStr s) inArray = True"
| "storable (JArr xs) inArray = (\<not> inArray \<and> (\<forall>ok\<in>set (map storable xs). ok True))"
| "storable (JObj m) inArray = (\<forall>ok\<in>fmran' (fmmap storable m). ok False)"

text \<open>\<open>ref.update(...)\<close> of the document at position \<open>i\<close>; it fails when there is none.\<close>

definition update_doc :: "'n store \<Rightarrow> path \<Rightarrow> nat \<Rightarrow> ('n session \<Rightarrow> 'n session) \<Rightarrow> 'n store option" where
  "update_doc st p i f =
     (if i < length (st p) then Some (st(p := (st p)[i := f (st p ! i)])) else None)"

subsection \<open>Calls of the SDK, and the environment\<close>

text \<open>
  The calls of the Firestore SDK in the handler, in source order: building the references
  (lines 95 and 96, no access to the store), the query of line 99, \<open>set\<close> of line 127,
  \<open>update\<close> of lines 138 and 143, the query of line 171, \<open>update\<close> of line 191 and \<open>get\<close> of
  line 195. Each can throw; the \<open>catch\<close> of line 213 turns that into a 500 response. A
  call is listed when its statement is reached, also when the SDK refuses it.
\<close>

datatype call = DocRef | QueryLatest | SetNew | UpdateAppend | QueryLatestForEnd | UpdateEnd | GetFinal

definition is_write :: "call \<Rightarrow> bool" where
  "is_write c \<longleftrightarrow> c = SetNew \<or> c = UpdateAppend \<or> c = UpdateEnd"

definition is_read :: "call \<Rightarrow> bool" where
  "is_read c \<longleftrightarrow> c = QueryLatest \<or> c = QueryLatestForEnd \<or> c = GetFinal"

text \<open>
  What one invocation takes from outside the source: \<open>process.env.NODE_ENV\<close>, the
  timestamp the server assigns to the write of this invocation, and for each call whether
  it fails (with \<open>err.message\<close>) for a reason that this model does not compute: the
  network, the service and its quotas, and the limits of the service on the size, the
  depth and the field names of a document and on the names of documents and collections.
\<close>

record env =
  NODE_ENV :: "jsstring option"
  now :: timestamp
  throws :: "call \<Rightarrow> jsstring option"

datatype exn =
    DestructureNull  \<comment> \<open>TypeError of line 69 when the body is \<open>null\<close>\<close>
  | InvalidResourcePath  \<comment> \<open>\<open>db.collection\<close> or \<open>doc\<close> of a path the SDK refuses\<close>
  | Refused call  \<comment> \<open>\<open>set\<close> or \<open>update\<close> of data the SDK or the service always refuses\<close>
  | NoSessionRef  \<comment> \<open>TypeError of \<open>sessionRef.update\<close> when \<open>sessionRef\<close> is undefined\<close>
  | NotFound  \<comment> \<open>\<open>update\<close> of a document that does not exist\<close>
  | Thrown call jsstring

subsection \<open>Events and responses\<close>

record event =
  httpMethod :: jsstring
  headers_origin :: "jsstring option"  \<comment> \<open>\<open>event.headers?.origin\<close>\<close>
  headers_Origin :: "jsstring option"  \<comment> \<open>\<open>event.headers?.Origin\<close>\<close>
  event_body :: "jsstring option"  \<comment> \<open>\<open>None\<close>: \<open>undefined\<close> or \<open>null\<close>\<close>

text \<open>The object given to \<open>JSON.stringify\<close> for the body of a response.\<close>

datatype 'n body =
    NoContent  \<comment> \<open>the empty body of the preflight response\<close>
  | ErrorBody jsstring  \<comment> \<open>\<open>{error}\<close>\<close>
  | SessionUpdated bool jsstring bool  \<comment> \<open>\<open>{success, message, newSessionStarted}\<close>\<close>
  | SessionEnded jsstring "'n session"  \<comment> \<open>\<open>{message, session}\<close>\<close>
  | NotUpdated jsstring jsstring  \<comment> \<open>\<open>{message, fingerprint}\<close>\<close>
  | InternalError jsstring exn  \<comment> \<open>\<open>{error, details}\<close>\<close>

record 'n response =
  statusCode :: nat
  headers :: "(string \<times> jsstring) list"
  body :: "'n body"

text \<open>\<open>a || b\<close> on strings that may be undefined.\<close>

definition or_else :: "jsstring option \<Rightarrow> jsstring option \<Rightarrow> jsstring option" where
  "or_else a b = (case a of None \<Rightarrow> b | Some s \<Rightarrow> if s = [] then b else Some s)"

definition getCorsHeaders :: "jsstring option \<Rightarrow> jsstring option \<Rightarrow> (string \<times> jsstring) list" where
  "getCorsHeaders node_env origin =
     (let allowedOrigins = [lit ''http://127.0.0.1:5501'', lit ''http://localhost:5501''];
          allowedOrigin =
            (if (case origin of None \<Rightarrow> False | Some s \<Rightarrow> s \<in> set allowedOrigins) then origin
             else if node_env = Some (lit ''development'') then Some (lit ''*'') else None)
      in [(''Access-Control-Allow-Origin'',
             (case or_else allowedOrigin (Some (lit ''*'')) of None \<Rightarrow> lit ''*'' | Some s \<Rightarrow> s)),
          (''Access-Control-Allow-Headers'', lit ''Content-Type, Authorization, Accept''),
          (''Access-Control-Allow-Methods'', lit ''POST, OPTIONS, GET''),
          (''Access-Control-Max-Age'', lit ''86400''),
          (''Content-Type'', lit ''application/json'')])"

subsection \<open>The handler\<close>

text \<open>
  Lines 71 to 92: the fingerprint is converted when it is a number, refused when it is
  not a string, trimmed, and refused when nothing is left. \<open>Inl\<close> is the early return.
\<close>

definition normalize_fingerprint :: "'n runtime \<Rightarrow> 'n json option \<Rightarrow> (nat \<times> 'n body) + jsstring" where
  "normalize_fingerprint rt fp =
     (case (case fp of
              Some (JNum n) \<Rightarrow> Some (toString rt n)
            | Some (JStr s) \<Rightarrow> Some s
            | _ \<Rightarrow> None) of
        None \<Rightarrow> Inl (400, ErrorBody (lit ''Fingerprint must be a string or number.''))
      | Some s \<Rightarrow>
          if trim s = [] then Inl (400, ErrorBody (lit ''Fingerprint missing.''))
          else Inr (trim s))"

text \<open>The request after line 92: the six properties of the body, the fingerprint normalized.\<close>

record 'n request =
  req_apiKey :: "'n json option"
  req_tinyCode :: "'n json option"
  fingerprint :: jsstring
  data :: "'n json option"
  action :: "'n json option"
  websiteName :: "'n json option"

text \<open>
  Lines 69 to 92, the request normalizer: the destructuring of the parsed body (which
  throws when the body is \<open>null\<close>) and the fingerprint checks. The result is an exception,
  an early return, or the request the rest of the handler works on.
\<close>

definition normalize :: "'n runtime \<Rightarrow> 'n json \<Rightarrow> exn + ((nat \<times> 'n body) + 'n request)" where
  "normalize rt b =
     (if b = JNull then Inl DestructureNull
      else
        (case normalize_fingerprint rt (property b (lit ''fingerprint'')) of
           Inl rejection \<Rightarrow> Inr (Inl rejection)
         | Inr fp \<Rightarrow>
             Inr (Inr \<lparr>req_apiKey = property b (lit ''apiKey''),
                       req_tinyCode = property b (lit ''tinyCode''),
                       fingerprint = fp,
                       data = property b (lit ''data''),
                       action = property b (lit ''action''),
                       websiteName = property b (lit ''websiteName'')\<rparr>)))"

text \<open>
  The result of a piece of the \<open>try\<close> block: an exception or the status and body returned,
  the store it leaves, and the calls it made.
\<close>

type_synonym 'n result = "(exn + nat \<times> 'n body) \<times> 'n store \<times> call list"

text \<open>
  The paths of the SDK. A path argument must be a non-empty string without \<open>//\<close>
  (\<open>validateResourcePath\<close>); it is split at \<open>/\<close>, empty segments dropped, and appended to
  the segments of the reference it is applied to. A collection has an odd number of
  segments, a document an even one.
\<close>

fun double_slash :: "jsstring \<Rightarrow> bool" where
  "double_slash (a # b # cs) = ((a = 0x2F \<and> b = 0x2F) \<or> double_slash (b # cs))"
| "double_slash cs = False"

definition validateResourcePath :: "jsstring \<Rightarrow> bool" where
  "validateResourcePath s \<longleftrightarrow> s \<noteq> [] \<and> \<not> double_slash s"

fun segments :: "jsstring \<Rightarrow> jsstring \<Rightarrow> path" where
  "segments seg [] = (if seg = [] then [] else [seg])"
| "segments seg (c # cs) =
     (if c = 0x2F then (if seg = [] then segments [] cs else seg # segments [] cs)
      else segments (seg @ [c]) cs)"

definition split_path :: "jsstring \<Rightarrow> path" where
  "split_path s = segments [] s"

text \<open>
  Lines 95 and 96: \<open>db.collection(websiteName)\<close> throws unless \<open>websiteName\<close> is a valid path
  argument with an odd number of segments, \<open>.doc(fingerprint)\<close> throws unless the segments of
  both make a document path, and \<open>.collection('sessions')\<close> adds one segment.
\<close>

definition sessionsCollRef :: "env \<Rightarrow> 'n request \<Rightarrow> exn + path" where
  "sessionsCollRef e req =
     (case websiteName req of
        Some (JStr w) \<Rightarrow>
          (let collectionPath = split_path w;
               documentPath = collectionPath @ split_path (fingerprint req)
           in if \<not> validateResourcePath w \<or> even (length collectionPath) then
                Inl InvalidResourcePath
              else if \<not> validateResourcePath (fingerprint req) \<or> odd (length documentPath) then
                Inl InvalidResourcePath
              else (case throws e DocRef of
                      Some m \<Rightarrow> Inl (Thrown DocRef m)
                    | None \<Rightarrow> Inr (documentPath @ [lit ''sessions''])))
      | _ \<Rightarrow> Inl InvalidResourcePath)"

text \<open>
  The document of lines 127 to 134 is refused by \<open>set\<close> when \<open>apiKey\<close> or \<open>tinyCode\<close> is
  \<open>undefined\<close> (the handler does not enable \<open>ignoreUndefinedProperties\<close>), and when one of its
  values holds an array inside an array.
\<close>

definition set_refused :: "'n request \<Rightarrow> 'n json list \<Rightarrow> bool" where
  "set_refused req elements \<longleftrightarrow>
     (case req_apiKey req of None \<Rightarrow> True | Some v \<Rightarrow> \<not> storable v False) \<or>
     (case req_tinyCode req of None \<Rightarrow> True | Some v \<Rightarrow> \<not> storable v False) \<or>
     (\<exists>x\<in>set elements. \<not> storable x True)"

text \<open>
  \<open>arrayUnion(...elements)\<close> of lines 140 and 145 throws without an element, and the
  update is refused when an element is an array or holds an array inside an array.
\<close>

definition arrayUnion_refused :: "'n json list \<Rightarrow> bool" where
  "arrayUnion_refused elements \<longleftrightarrow> elements = [] \<or> (\<exists>x\<in>set elements. \<not> storable x True)"

text \<open>Lines 107 to 163, entered with the truthy \<open>data\<close> and the snapshot of line 99.\<close>

definition append_or_start :: "env \<Rightarrow> 'n request \<Rightarrow> 'n json \<Rightarrow> path \<Rightarrow> (nat \<times> 'n session) option \<Rightarrow> 'n store \<Rightarrow> 'n result" where
  "append_or_start e req d p latestSessionSnap st =
     (let (newSessionStarted, sessionRef) =
            (case latestSessionSnap of
               None \<Rightarrow> (True, None)
             | Some (i, lastSessionData) \<Rightarrow>
                 if endedAt lastSessionData \<noteq> None then (True, None) else (False, Some i));
          elements = (case d of JArr xs \<Rightarrow> xs | _ \<Rightarrow> [d])
      in if newSessionStarted then
           (if set_refused req elements then (Inl (Refused SetNew), st, [SetNew])
            else
              (case throws e SetNew of
                 Some m \<Rightarrow> (Inl (Thrown SetNew m), st, [SetNew])
               | None \<Rightarrow>
                   (Inr (200, SessionUpdated True (lit ''Started a new session and recorded data.'') True),
                    st(p := st p @
                         [\<lparr>apiKey = req_apiKey req, tinyCode = req_tinyCode req,
                           startedAt = now e, lastActivity = now e, endedAt = None,
                           dataBatches = elements\<rparr>]),
                    [SetNew])))
         else
           (case sessionRef of
              None \<Rightarrow> (Inl NoSessionRef, st, [])
            | Some i \<Rightarrow>
                if arrayUnion_refused elements then (Inl (Refused UpdateAppend), st, [UpdateAppend])
                else
                  (case throws e UpdateAppend of
                     Some m \<Rightarrow> (Inl (Thrown UpdateAppend m), st, [UpdateAppend])
                   | None \<Rightarrow>
                       (case update_doc st p i
                               (\<lambda>s. s\<lparr>lastActivity := now e,
                                      dataBatches := arrayUnion (dataBatches s) elements\<rparr>) of
                          None \<Rightarrow> (Inl NotFound, st, [UpdateAppend])
                        | Some st' \<Rightarrow>
                            (Inr (200, SessionUpdated True
                                    (lit ''Added data to the existing active session.'') False),
                             st', [UpdateAppend])))))"

text \<open>Lines 169 to 204.\<close>

definition end_session :: "env \<Rightarrow> path \<Rightarrow> 'n store \<Rightarrow> 'n result" where
  "end_session e p st =
     (case throws e QueryLatestForEnd of
        Some m \<Rightarrow> (Inl (Thrown QueryLatestForEnd m), st, [QueryLatestForEnd])
      | None \<Rightarrow>
          (case latest (st p) of
             None \<Rightarrow>
               (Inr (404, ErrorBody (lit ''No active session found for this fingerprint.'')),
                st, [QueryLatestForEnd])
           | Some (i, lastSessionData) \<Rightarrow>
               if endedAt lastSessionData \<noteq> None then
                 (Inr (400, ErrorBody (lit ''Session has already ended.'')), st, [QueryLatestForEnd])
               else
                 (case throws e UpdateEnd of
                    Some m \<Rightarrow> (Inl (Thrown UpdateEnd m), st, [QueryLatestForEnd, UpdateEnd])
                  | None \<Rightarrow>
                      (case update_doc st p i
                              (\<lambda>s. s\<lparr>endedAt := Some (now e), lastActivity := now e\<rparr>) of
                         None \<Rightarrow> (Inl NotFound, st, [QueryLatestForEnd, UpdateEnd])
                       | Some st' \<Rightarrow>
                           (case throws e GetFinal of
                              Some m \<Rightarrow>
                                (Inl (Thrown GetFinal m), st', [QueryLatestForEnd, UpdateEnd, GetFinal])
                            | None \<Rightarrow>
                                (Inr (200, SessionEnded
                                        (lit ''Session ended. Data stored in Firestore.'') (st' p ! i)),
                                 st', [QueryLatestForEnd, UpdateEnd, GetFinal]))))))"

text \<open>
  Lines 95 to 211: the references, the query of line 99, and the three branches. The
  second and third branch are reached when the condition of line 105 is false.
\<close>

definition lifecycle :: "'n runtime \<Rightarrow> env \<Rightarrow> 'n request \<Rightarrow> 'n store \<Rightarrow> 'n result" where
  "lifecycle rt e req st =
     (case sessionsCollRef e req of
        Inl x \<Rightarrow> (Inl x, st, [DocRef])
      | Inr p \<Rightarrow>
          (case throws e QueryLatest of
             Some m \<Rightarrow> (Inl (Thrown QueryLatest m), st, [DocRef, QueryLatest])
           | None \<Rightarrow>
               (let latestSessionSnap = latest (st p);
                    (r, st', cs) =
                      (let otherwise =
                             (if action req = Some (JStr (lit ''end'')) then end_session e p st
                              else (Inr (200, NotUpdated (lit ''Session not updated.'') (fingerprint req)),
                                    st, []))
                       in case data req of
                            None \<Rightarrow> otherwise
                          | Some d \<Rightarrow>
                              if truthy rt (Some d) \<and>
                                 (\<not> truthy rt (action req) \<or> action req = Some (JStr (lit ''append'')))
                              then append_or_start e req d p latestSessionSnap st
                              else otherwise)
                in (r, st', DocRef # QueryLatest # cs))))"

text \<open>Lines 69 to 211: the \<open>try\<close> block after the body has been parsed.\<close>

definition try_block :: "'n runtime \<Rightarrow> env \<Rightarrow> 'n json \<Rightarrow> 'n store \<Rightarrow> 'n result" where
  "try_block rt e b st =
     (case normalize rt b of
        Inl x \<Rightarrow> (Inl x, st, [])
      | Inr (Inl rejection) \<Rightarrow> (Inr rejection, st, [])
      | Inr (Inr req) \<Rightarrow> lifecycle rt e req st)"

text \<open>\<open>event.body || "{}"\<close>, the text given to \<open>JSON.parse\<close> (line 60).\<close>

definition body_text :: "event \<Rightarrow> jsstring" where
  "body_text ev = (case event_body ev of None \<Rightarrow> lit ''{}'' | Some s \<Rightarrow> if s = [] then lit ''{}'' else s)"

text \<open>Line 45: the headers of every response of the invocation.\<close>

definition cors :: "env \<Rightarrow> event \<Rightarrow> (string \<times> jsstring) list" where
  "cors e ev = getCorsHeaders (NODE_ENV e) (or_else (headers_origin ev) (headers_Origin ev))"

text \<open>
  The response made from the result of the \<open>try\<close> block: the value it returned, or the
  500 response of the \<open>catch\<close> (lines 213 to 223).
\<close>

definition respond :: "(string \<times> jsstring) list \<Rightarrow> 'n result \<Rightarrow> 'n response \<times> 'n store \<times> call list" where
  "respond hs r =
     (case r of
        (Inl err, st', cs) \<Rightarrow>
          (\<lparr>statusCode = 500, headers = hs,
            body = InternalError (lit ''Internal Server Error'') err\<rparr>, st', cs)
      | (Inr (code, bd), st', cs) \<Rightarrow> (\<lparr>statusCode = code, headers = hs, body = bd\<rparr>, st', cs))"

text \<open>
  \<open>exports.handler\<close>: the response, the store after the invocation, and the calls of the
  SDK the invocation made, in order.
\<close>

definition handler :: "'n runtime \<Rightarrow> env \<Rightarrow> event \<Rightarrow> 'n store \<Rightarrow> 'n response \<times> 'n store \<times> call list" where
  "handler rt e ev st =
     (if httpMethod ev = lit ''OPTIONS'' then
        (\<lparr>statusCode = 204, headers = cors e ev, body = NoContent\<rparr>, st, [])
      else
        (case JSON_parse rt (body_text ev) of
           None \<Rightarrow>
             (\<lparr>statusCode = 400, headers = cors e ev,
               body = ErrorBody (lit ''Invalid JSON in request body'')\<rparr>, st, [])
         | Some b \<Rightarrow> respond (cors e ev) (try_block rt e b st)))"

text \<open>
  Invocations one after the other, each with its own environment: the stores after each
  of them are the stores a sequential execution goes through.
\<close>

fun run :: "'n runtime \<Rightarrow> (env \<times> event) list \<Rightarrow> 'n store \<Rightarrow> 'n store" where
  "run rt [] st = st"
| "run rt ((e, ev) # rest) st = run rt rest (fst (snd (handler rt e ev st)))"

definition no_sessions :: "'n store" where
  "no_sessions = (\<lambda>p. [])"

definition open_sessions :: "'n store \<Rightarrow> path \<Rightarrow> 'n session list" where
  "open_sessions st p = filter (\<lambda>s. endedAt s = None) (st p)"

subsection \<open>The session state machine\<close>

text \<open>
  The effects an invocation at server time \<open>t\<close> can have on the store: none, a new open
  session where the latest one is missing or closed, an append to the open latest
  session, or its closing.
\<close>

inductive transition :: "timestamp \<Rightarrow> 'n store \<Rightarrow> 'n store \<Rightarrow> bool" for t :: timestamp and st :: "'n store" where
  stays: "transition t st st"
| starts:
    "st p = [] \<or> (\<exists>i s. latest (st p) = Some (i, s) \<and> endedAt s \<noteq> None) \<Longrightarrow>
     startedAt n = t \<Longrightarrow> lastActivity n = t \<Longrightarrow> endedAt n = None \<Longrightarrow>
     transition t st (st(p := st p @ [n]))"
| appends:
    "latest (st p) = Some (i, s) \<Longrightarrow> endedAt s = None \<Longrightarrow>
     transition t st (st(p := (st p)[i := s\<lparr>lastActivity := t, dataBatches := ds\<rparr>]))"
| closes:
    "latest (st p) = Some (i, s) \<Longrightarrow> endedAt s = None \<Longrightarrow>
     transition t st (st(p := (st p)[i := s\<lparr>endedAt := Some t, lastActivity := t\<rparr>]))"

text \<open>
  The invariant of a sequential execution whose server timestamps increase: in every
  sub-collection the sessions were started in the order of their creation, before time
  \<open>T\<close>, and every session but the last is closed.
\<close>

definition store_inv :: "timestamp \<Rightarrow> 'n store \<Rightarrow> bool" where
  "store_inv T st \<longleftrightarrow>
     (\<forall>p. sorted_wrt (<) (map startedAt (st p)) \<and>
          (\<forall>s\<in>set (st p). startedAt s < T) \<and>
          (\<forall>s\<in>set (butlast (st p)). endedAt s \<noteq> None))"

subsection \<open>A runtime and requests to evaluate the handler on\<close>

text \<open>
  An instance of the runtime. \<open>JSON.parse\<close> is given by its values on the request texts
  below; it rounds the integer \<open>9007199254740993\<close>, which is \<open>2^53 + 1\<close>, to the nearest
  double, \<open>2^53\<close>. \<open>toString\<close> beyond the integers of magnitude below \<open>2^53\<close> is given by
  its values \<open>"9007199254740992"\<close> on \<open>2^53\<close> and \<open>"1e+21"\<close> on \<open>10^21\<close> (its value on other
  numbers is not used). The requests are those of a visitor with fingerprint \<open>42\<close> on the
  website \<open>shop\<close>.
\<close>

definition shop_body :: "(jsstring \<times> unit json) list \<Rightarrow> unit json" where
  "shop_body extra =
     JObj (fmap_of_list
       ((lit ''apiKey'', JStr (lit ''k1'')) # (lit ''tinyCode'', JStr (lit ''t1'')) #
        (lit ''fingerprint'', JNum (Integer 42)) # (lit ''websiteName'', JStr (lit ''shop'')) # extra))"

definition keyless_body :: "unit json" where
  "keyless_body =
     JObj (fmap_of_list
       [(lit ''fingerprint'', JNum (Integer 42)), (lit ''websiteName'', JStr (lit ''shop'')),
        (lit ''data'', JStr (lit ''click''))])"

definition region_body :: "unit json" where
  "region_body =
     JObj (fmap_of_list
       [(lit ''apiKey'', JStr (lit ''k1'')), (lit ''tinyCode'', JStr (lit ''t1'')),
        (lit ''fingerprint'', JNum (Integer 42)), (lit ''websiteName'', JStr (lit ''shop/eu'')),
        (lit ''data'', JStr (lit ''click''))])"

definition rounded_body :: "unit json" where
  "rounded_body =
     JObj (fmap_of_list
       [(lit ''apiKey'', JStr (lit ''k1'')), (lit ''tinyCode'', JStr (lit ''t1'')),
        (lit ''fingerprint'', JNum (Integer 9007199254740992)),
        (lit ''websiteName'', JStr (lit ''shop'')), (lit ''data'', JStr (lit ''click''))])"

definition click_text :: jsstring where
  \<open>click_text = lit ''{"apiKey":"k1","tinyCode":"t1","fingerprint":42,"websiteName":"shop","data":"click"}''\<close>

definition batch_text :: jsstring where
  \<open>batch_text = lit ''{"apiKey":"k1","tinyCode":"t1","fingerprint":42,"websiteName":"shop","data":["scroll","hover"]}''\<close>

definition end_text :: jsstring where
  \<open>end_text = lit ''{"apiKey":"k1","tinyCode":"t1","fingerprint":42,"websiteName":"shop","action":"end"}''\<close>

definition false_text :: jsstring where
  \<open>false_text = lit ''{"apiKey":"k1","tinyCode":"t1","fingerprint":42,"websiteName":"shop","data":false}''\<close>

definition bare_text :: jsstring where
  \<open>bare_text = lit ''{"apiKey":"k1","tinyCode":"t1","fingerprint":42,"websiteName":"shop"}''\<close>

definition zero_text :: jsstring where
  \<open>zero_text = lit ''{"apiKey":"k1","tinyCode":"t1","fingerprint":42,"websiteName":"shop","data":0}''\<close>

definition empty_action_text :: jsstring where
  \<open>empty_action_text = lit ''{"apiKey":"k1","tinyCode":"t1","fingerprint":42,"websiteName":"shop","data":"click","action":""}''\<close>

definition empty_batch_text :: jsstring where
  \<open>empty_batch_text = lit ''{"apiKey":"k1","tinyCode":"t1","fingerprint":42,"websiteName":"shop","data":[]}''\<close>

definition nested_text :: jsstring where
  \<open>nested_text = lit ''{"apiKey":"k1","tinyCode":"t1","fingerprint":42,"websiteName":"shop","data":["scroll",["hover"]]}''\<close>

definition keyless_text :: jsstring where
  \<open>keyless_text = lit ''{"fingerprint":42,"websiteName":"shop","data":"click"}''\<close>

definition region_text :: jsstring where
  \<open>region_text = lit ''{"apiKey":"k1","tinyCode":"t1","fingerprint":42,"websiteName":"shop/eu","data":"click"}''\<close>

definition rounded_text :: jsstring where
  \<open>rounded_text = lit ''{"apiKey":"k1","tinyCode":"t1","fingerprint":9007199254740993,"websiteName":"shop","data":"click"}''\<close>

definition blank_text :: jsstring where
  \<open>blank_text = lit ''{"fingerprint":"  ","websiteName":"shop","data":"click"}''\<close>

definition bool_text :: jsstring where
  \<open>bool_text = lit ''{"fingerprint":true,"websiteName":"shop","data":"click"}''\<close>

definition node :: "unit runtime" where
  "node =
     \<lparr>JSON_parse = map_of
        [(lit ''{}'', JObj fmempty),
         (lit ''null'', JNull),
         (zero_text, shop_body [(lit ''data'', JNum (Integer 0))]),
         (empty_action_text, shop_body [(lit ''data'', JStr (lit ''click'')), (lit ''action'', JStr [])]),
         (empty_batch_text, shop_body [(lit ''data'', JArr [])]),
         (nested_text, shop_body [(lit ''data'', JArr [JStr (lit ''scroll''), JArr [JStr (lit ''hover'')]])]),
         (keyless_text, keyless_body),
         (region_text, region_body),
         (rounded_text, rounded_body),
         (click_text, shop_body [(lit ''data'', JStr (lit ''click''))]),
         (batch_text, shop_body [(lit ''data'', JArr [JStr (lit ''scroll''), JStr (lit ''hover'')])]),
         (end_text, shop_body [(lit ''action'', JStr (lit ''end''))]),
         (false_text, shop_body [(lit ''data'', JBool False)]),
         (bare_text, shop_body []),
         (blank_text, JObj (fmap_of_list
            [(lit ''fingerprint'', JStr (lit ''  '')), (lit ''websiteName'', JStr (lit ''shop'')),
             (lit ''data'', JStr (lit ''click''))])),
         (bool_text, JObj (fmap_of_list
            [(lit ''fingerprint'', JBool True), (lit ''websiteName'', JStr (lit ''shop'')),
             (lit ''data'', JStr (lit ''click''))]))],
      Number_toString =
        (\<lambda>n. if n = Integer 1000000000000000000000 then lit ''1e+21''
             else if n = Integer 9007199254740992 then lit ''9007199254740992''
             else lit ''Infinity'')\<rparr>"

definition post :: "jsstring \<Rightarrow> event" where
  "post text = \<lparr>httpMethod = lit ''POST'', headers_origin = None, headers_Origin = None,
                 event_body = Some text\<rparr>"

text \<open>An environment in which no call throws and the server time is \<open>t\<close>.\<close>

definition env_at :: "timestamp \<Rightarrow> env" where
  "env_at t = \<lparr>NODE_ENV = None, now = t, throws = (\<lambda>c. None)\<rparr>"

definition shop_request :: "unit json option \<Rightarrow> unit json option \<Rightarrow> unit request" where
  "shop_request d a =
     \<lparr>req_apiKey = Some (JStr (lit ''k1'')), req_tinyCode = Some (JStr (lit ''t1'')),
      fingerprint = lit ''42'', data = d, action = a, websiteName = Some (JStr (lit ''shop''))\<rparr>"

definition shop_session :: "timestamp \<Rightarrow> timestamp \<Rightarrow> timestamp option \<Rightarrow> unit json list \<Rightarrow> unit session" where
  "shop_session started active ended batches =
     \<lparr>apiKey = Some (JStr (lit ''k1'')), tinyCode = Some (JStr (lit ''t1'')),
      startedAt = started, lastActivity = active, endedAt = ended, dataBatches = batches\<rparr>"

definition shop_sessions :: path where
  "shop_sessions = [lit ''shop'', lit ''42'', lit ''sessions'']"

text \<open>
  The scenario of the specification: a first data point, a batch, the end of the session,
  and a data point after it.
\<close>

definition scenario :: "(env \<times> event) list" where
  "scenario = [(env_at 1, post click_text), (env_at 2, post batch_text),
               (env_at 3, post end_text), (env_at 4, post click_text)]"

section \<open>Lemmas\<close>

subsection \<open>Literals\<close>

lemma of_char_word_eq_iff: "(of_char c :: 16 word) = of_char d \<longleftrightarrow> c = d"
proof -
  have "(of_char c :: 16 word) = of_char d \<longleftrightarrow>
        (word_of_nat (of_char c) :: 16 word) = word_of_nat (of_char d)"
    by (simp only: of_nat_of_char)
  also have "\<dots> \<longleftrightarrow> take_bit 16 (of_char c :: nat) = take_bit 16 (of_char d :: nat)"
    by (simp add: word_of_nat_eq_iff)
  also have "\<dots> \<longleftrightarrow> (of_char c :: nat) = of_char d"
  proof -
    have "(of_char x :: nat) < 2 ^ 16" for x
    proof -
      have "(of_char x :: nat) < 256" by (rule nat_of_char_less_256)
      also have "(256 :: nat) < 2 ^ 16" by simp
      finally show ?thesis .
    qed
    then show ?thesis by (simp add: take_bit_nat_eq_self)
  qed
  finally show ?thesis by simp
qed

lemma lit_eq_iff: "lit a = lit b \<longleftrightarrow> a = b"
proof -
  have "inj (of_char :: char \<Rightarrow> 16 word)" by (rule injI) (simp add: of_char_word_eq_iff)
  then show ?thesis unfolding lit_def by (rule inj_map_eq_map)
qed

lemma lit_eq_Nil_iff: "lit a = [] \<longleftrightarrow> a = []"
  by (simp add: lit_def)

lemma lit_append: "lit a @ lit b = lit (a @ b)"
  by (simp add: lit_def)

lemmas lit_simps = lit_eq_iff lit_eq_Nil_iff

subsection \<open>The latest session\<close>

lemma latest_None: "latest ss = None \<longleftrightarrow> ss = []"
  by (cases ss) (auto split: option.splits)

lemma latest_Some:
  "latest ss = Some (i, s) \<Longrightarrow> i < length ss \<and> ss ! i = s"
  by (induction ss arbitrary: i s) (auto split: option.splits if_splits)

lemma latest_max:
  "latest ss = Some (i, s) \<Longrightarrow> x \<in> set ss \<Longrightarrow> startedAt x \<le> startedAt s"
  by (induction ss arbitrary: i s) (auto split: option.splits if_splits simp: latest_None)

lemma latest_sorted:
  "ss \<noteq> [] \<Longrightarrow> sorted_wrt (<) (map startedAt ss) \<Longrightarrow> latest ss = Some (length ss - 1, last ss)"
proof (induction ss)
  case Nil
  then show ?case by simp
next
  case (Cons s ss)
  show ?case
  proof (cases "ss = []")
    case True
    then show ?thesis by simp
  next
    case False
    with Cons have "latest ss = Some (length ss - 1, last ss)" by simp
    moreover from Cons.prems False have "startedAt s < startedAt (last ss)" by simp
    ultimately show ?thesis using False by simp
  qed
qed

lemma latest_single: "latest [s] = Some (0, s)"
  by simp

subsection \<open>Trimming\<close>

lemma dropWhile_all: "(\<forall>x\<in>set (dropWhile P xs). P x) \<longleftrightarrow> (\<forall>x\<in>set xs. P x)"
  by (induction xs) auto

lemma dropWhile_unchanged: "xs = [] \<or> \<not> P (hd xs) \<Longrightarrow> dropWhile P xs = xs"
  by (cases xs) auto

lemma trim_Nil_iff: "trim s = [] \<longleftrightarrow> (\<forall>c\<in>set s. is_ws c)"
  unfolding trim_def by (simp add: dropWhile_eq_Nil_conv dropWhile_all)

lemma trim_is_prefix: "dropWhile is_ws s = trim s @ rev (takeWhile is_ws (rev (dropWhile is_ws s)))"
proof -
  let ?r = "rev (dropWhile is_ws s)"
  have "takeWhile is_ws ?r @ dropWhile is_ws ?r = ?r" by simp
  then have "rev (takeWhile is_ws ?r @ dropWhile is_ws ?r) = rev ?r" by (simp only:)
  then have "rev (dropWhile is_ws ?r) @ rev (takeWhile is_ws ?r) = dropWhile is_ws s"
    by (simp only: rev_append rev_rev_ident)
  then show ?thesis unfolding trim_def by (rule sym)
qed

lemma trim_hd_not_ws: 
  assumes "trim s \<noteq> []" shows "\<not> is_ws (hd (trim s))"
proof -
  from trim_is_prefix [of s] assms have "hd (dropWhile is_ws s) = hd (trim s)"
    by (metis hd_append2)
  moreover from trim_is_prefix [of s] assms have "dropWhile is_ws s \<noteq> []"
    by (metis append_is_Nil_conv)
  ultimately show ?thesis using hd_dropWhile [of is_ws s] by simp
qed

lemma trim_last_not_ws: 
  assumes "trim s \<noteq> []" shows "\<not> is_ws (last (trim s))"
proof -
  let ?r = "rev (dropWhile is_ws s)"
  from assms have "dropWhile is_ws ?r \<noteq> []" unfolding trim_def by simp
  then have "\<not> is_ws (hd (dropWhile is_ws ?r))" by (rule hd_dropWhile)
  then show ?thesis using assms unfolding trim_def by (simp add: last_rev)
qed

lemma trim_unchanged:
  assumes "s \<noteq> []" "\<not> is_ws (hd s)" "\<not> is_ws (last s)"
  shows "trim s = s"
proof -
  have "dropWhile is_ws s = s" using assms by (simp add: dropWhile_unchanged)
  moreover have "dropWhile is_ws (rev s) = rev s" 
    using assms by (intro dropWhile_unchanged) (simp add: hd_rev)
  ultimately show ?thesis unfolding trim_def by simp
qed

lemma trim_idem: "trim (trim s) = trim s"
proof (cases "trim s = []")
  case True
  moreover have "trim [] = []" by (simp add: trim_def)
  ultimately show ?thesis by simp
next
  case False
  then show ?thesis by (intro trim_unchanged trim_hd_not_ws trim_last_not_ws)
qed

lemma trim_padded:
  assumes "\<forall>c\<in>set a. is_ws c" "\<forall>c\<in>set b. is_ws c"
  shows "trim (a @ s @ b) = trim s"
proof -
  have 1: "dropWhile is_ws (a @ s @ b) = dropWhile is_ws (s @ b)"
    using assms by (simp add: dropWhile_append)
  show ?thesis
  proof (cases "\<forall>c\<in>set s. is_ws c")
    case True
    with assms have "\<forall>c\<in>set (a @ s @ b). is_ws c" by auto
    then have "trim (a @ s @ b) = []" by (simp only: trim_Nil_iff)
    moreover from True have "trim s = []" by (simp only: trim_Nil_iff)
    ultimately show ?thesis by simp
  next
    case False
    then have 2: "dropWhile is_ws (s @ b) = dropWhile is_ws s @ b"
      by (auto simp: dropWhile_append)
    from False have "\<not> (\<forall>c\<in>set (dropWhile is_ws s). is_ws c)" by (simp add: dropWhile_all)
    then have "dropWhile is_ws (rev b @ rev (dropWhile is_ws s)) = dropWhile is_ws (rev (dropWhile is_ws s))"
      using assms by (auto simp: dropWhile_append)
    then have "dropWhile is_ws (rev (dropWhile is_ws (a @ s @ b))) = dropWhile is_ws (rev (dropWhile is_ws s))"
      by (simp only: 1 2 rev_append)
    then show ?thesis unfolding trim_def by (simp only:)
  qed
qed

lemma digit_not_ws: "k < 10 \<Longrightarrow> \<not> is_ws (0x30 + of_nat k)"
proof -
  assume "k < 10"
  then have "k = 0 \<or> k = 1 \<or> k = 2 \<or> k = 3 \<or> k = 4 \<or> k = 5 \<or> k = 6 \<or> k = 7 \<or> k = 8 \<or> k = 9" by arith
  then show ?thesis by (auto simp: is_ws_def)
qed

lemma digits_not_ws: "c \<in> set (digits n) \<Longrightarrow> \<not> is_ws c"
proof (induction n arbitrary: c rule: digits.induct)
  case (1 n)
  show ?case
  proof (cases "n < 10")
    case True
    with "1.prems" show ?thesis by (simp add: digits.simps [of n] digit_not_ws)
  next
    case False
    with "1.prems" have "c \<in> set (digits (n div 10)) \<or> c = 0x30 + of_nat (n mod 10)"
      by (auto simp: digits.simps [of n])
    then show ?thesis using "1.IH" False digit_not_ws [of "n mod 10"] by auto
  qed
qed

lemma digits_not_Nil: "digits n \<noteq> []"
  by (simp add: digits.simps [of n])

lemma decimal_not_Nil: "decimal n \<noteq> []"
  by (simp add: decimal_def digits_not_Nil)

lemma decimal_not_ws: "c \<in> set (decimal n) \<Longrightarrow> \<not> is_ws c"
  by (auto simp: decimal_def is_ws_def dest: digits_not_ws split: if_splits)

lemma trim_decimal: "trim (decimal n) = decimal n"
proof (rule trim_unchanged)
  show "decimal n \<noteq> []" by (rule decimal_not_Nil)
  then have "hd (decimal n) \<in> set (decimal n)" "last (decimal n) \<in> set (decimal n)" by simp_all
  then show "\<not> is_ws (hd (decimal n))" "\<not> is_ws (last (decimal n))"
    by (simp_all add: decimal_not_ws)
qed

subsection \<open>Storable values, array union and paths\<close>

lemma storable_JArr:
  "storable (JArr xs) inArray \<longleftrightarrow> \<not> inArray \<and> (\<forall>x\<in>set xs. storable x True)"
  by auto

lemma storable_JObj:
  "storable (JObj m) inArray \<longleftrightarrow> (\<forall>v\<in>fmran' m. storable v False)"
  by (auto simp: fmran'_def)

lemma set_refused_iff:
  "set_refused req elements \<longleftrightarrow>
     req_apiKey req = None \<or> req_tinyCode req = None \<or>
     (\<exists>v. req_apiKey req = Some v \<and> \<not> storable v False) \<or>
     (\<exists>v. req_tinyCode req = Some v \<and> \<not> storable v False) \<or>
     (\<exists>x\<in>set elements. \<not> storable x True)"
  by (auto simp: set_refused_def split: option.splits)

lemma arrayUnion_Cons:
  "arrayUnion xs (y # ys) = arrayUnion (if y \<in> set xs then xs else xs @ [y]) ys"
  by (simp add: arrayUnion_def)

lemma arrayUnion_new:
  "\<exists>new. arrayUnion xs ys = xs @ new \<and> distinct new \<and> set new = set ys - set xs"
proof (induction ys arbitrary: xs)
  case Nil
  show ?case by (simp add: arrayUnion_def)
next
  case (Cons y ys)
  show ?case
  proof (cases "y \<in> set xs")
    case True
    from Cons [of xs] obtain new where "arrayUnion xs ys = xs @ new" "distinct new" "set new = set ys - set xs"
      by blast
    with True show ?thesis by (auto simp: arrayUnion_Cons)
  next
    case False
    from Cons [of "xs @ [y]"] obtain new
      where n: "arrayUnion (xs @ [y]) ys = (xs @ [y]) @ new" "distinct new" "set new = set ys - set (xs @ [y])"
      by blast
    from n False have "arrayUnion xs (y # ys) = xs @ (y # new)" by (simp add: arrayUnion_Cons)
    moreover from n have "distinct (y # new)" by auto
    moreover from n False have "set (y # new) = set (y # ys) - set xs" by auto
    ultimately show ?thesis by blast
  qed
qed

lemma arrayUnion_fresh:
  "distinct ys \<Longrightarrow> set ys \<inter> set xs = {} \<Longrightarrow> arrayUnion xs ys = xs @ ys"
  by (induction ys arbitrary: xs) (auto simp: arrayUnion_Cons, simp add: arrayUnion_def)

subsection \<open>The handler, branch by branch\<close>

lemma handler_lifecycle:
  assumes "httpMethod ev \<noteq> lit ''OPTIONS''"
    and "JSON_parse rt (body_text ev) = Some b"
    and "normalize rt b = Inr (Inr req)"
  shows "handler rt e ev st = respond (cors e ev) (lifecycle rt e req st)"
  using assms by (simp add: handler_def try_block_def)

lemma lifecycle_append:
  assumes "sessionsCollRef e req = Inr p"
    and "throws e QueryLatest = None"
    and "data req = Some d"
    and "truthy rt (Some d)"
    and "\<not> truthy rt (action req) \<or> action req = Some (JStr (lit ''append''))"
  shows "lifecycle rt e req st =
    (case append_or_start e req d p (latest (st p)) st of (r, st', cs) \<Rightarrow> (r, st', DocRef # QueryLatest # cs))"
  using assms by (auto simp: lifecycle_def Let_def)

lemma lifecycle_end:
  assumes "sessionsCollRef e req = Inr p"
    and "throws e QueryLatest = None"
    and "action req = Some (JStr (lit ''end''))"
  shows "lifecycle rt e req st =
    (case end_session e p st of (r, st', cs) \<Rightarrow> (r, st', DocRef # QueryLatest # cs))"
  using assms by (auto simp: lifecycle_def Let_def lit_simps split: option.splits)

lemma lifecycle_noop:
  assumes "sessionsCollRef e req = Inr p"
    and "throws e QueryLatest = None"
    and "\<not> (truthy rt (data req) \<and> (\<not> truthy rt (action req) \<or> action req = Some (JStr (lit ''append''))))"
    and "action req \<noteq> Some (JStr (lit ''end''))"
  shows "lifecycle rt e req st =
    (Inr (200, NotUpdated (lit ''Session not updated.'') (fingerprint req)), st, [DocRef, QueryLatest])"
  using assms by (auto simp: lifecycle_def Let_def split: option.splits)

lemma append_or_start_new:
  assumes "st p = [] \<or> (\<exists>i s. latest (st p) = Some (i, s) \<and> endedAt s \<noteq> None)"
    and "\<not> set_refused req (case d of JArr xs \<Rightarrow> xs | _ \<Rightarrow> [d])"
    and "throws e SetNew = None"
  shows "append_or_start e req d p (latest (st p)) st =
    (Inr (200, SessionUpdated True (lit ''Started a new session and recorded data.'') True),
     st(p := st p @
        [\<lparr>apiKey = req_apiKey req, tinyCode = req_tinyCode req,
          startedAt = now e, lastActivity = now e, endedAt = None,
          dataBatches = (case d of JArr xs \<Rightarrow> xs | _ \<Rightarrow> [d])\<rparr>]),
     [SetNew])"
  using assms by (auto simp: append_or_start_def Let_def)

lemma append_or_start_set_refused:
  assumes "st p = [] \<or> (\<exists>i s. latest (st p) = Some (i, s) \<and> endedAt s \<noteq> None)"
    and "set_refused req (case d of JArr xs \<Rightarrow> xs | _ \<Rightarrow> [d])"
  shows "append_or_start e req d p (latest (st p)) st = (Inl (Refused SetNew), st, [SetNew])"
  using assms by (auto simp: append_or_start_def Let_def)

lemma append_or_start_union_refused:
  assumes "latest (st p) = Some (i, s)" "endedAt s = None"
    and "arrayUnion_refused (case d of JArr xs \<Rightarrow> xs | _ \<Rightarrow> [d])"
  shows "append_or_start e req d p (latest (st p)) st =
    (Inl (Refused UpdateAppend), st, [UpdateAppend])"
  using assms by (simp add: append_or_start_def Let_def)

lemma append_or_start_open:
  assumes "latest (st p) = Some (i, s)" "endedAt s = None"
    and "\<not> arrayUnion_refused (case d of JArr xs \<Rightarrow> xs | _ \<Rightarrow> [d])"
    and "throws e UpdateAppend = None"
  shows "append_or_start e req d p (latest (st p)) st =
    (Inr (200, SessionUpdated True (lit ''Added data to the existing active session.'') False),
     st(p := (st p)[i := s\<lparr>lastActivity := now e,
                            dataBatches := arrayUnion (dataBatches s) (case d of JArr xs \<Rightarrow> xs | _ \<Rightarrow> [d])\<rparr>]),
     [UpdateAppend])"
  using assms latest_Some [OF assms(1)] by (simp add: append_or_start_def update_doc_def Let_def)

lemma end_session_none:
  assumes "throws e QueryLatestForEnd = None" "st p = []"
  shows "end_session e p st =
    (Inr (404, ErrorBody (lit ''No active session found for this fingerprint.'')), st, [QueryLatestForEnd])"
  using assms by (simp add: end_session_def)

lemma end_session_closed:
  assumes "throws e QueryLatestForEnd = None" "latest (st p) = Some (i, s)" "endedAt s \<noteq> None"
  shows "end_session e p st =
    (Inr (400, ErrorBody (lit ''Session has already ended.'')), st, [QueryLatestForEnd])"
  using assms by (auto simp add: end_session_def)

lemma end_session_open:
  assumes "throws e QueryLatestForEnd = None" "latest (st p) = Some (i, s)" "endedAt s = None"
    and "throws e UpdateEnd = None" "throws e GetFinal = None"
  shows "end_session e p st =
    (Inr (200, SessionEnded (lit ''Session ended. Data stored in Firestore.'')
                 (s\<lparr>endedAt := Some (now e), lastActivity := now e\<rparr>)),
     st(p := (st p)[i := s\<lparr>endedAt := Some (now e), lastActivity := now e\<rparr>]),
     [QueryLatestForEnd, UpdateEnd, GetFinal])"
  using assms latest_Some [OF assms(2)] by (simp add: end_session_def update_doc_def)

lemma truthy_iff:
  "truthy rt x \<longleftrightarrow>
     (\<exists>v. x = Some v \<and> v \<noteq> JNull \<and> v \<noteq> JBool False \<and> v \<noteq> JNum (Integer 0) \<and> v \<noteq> JStr [])"
proof (cases x)
  case None
  then show ?thesis by simp
next
  case (Some v)
  show ?thesis
  proof (cases v)
    case (JNum n)
    with Some show ?thesis by (cases n) auto
  qed (use Some in auto)
qed

lemma append_or_start_calls:
  "snd (snd (append_or_start e req d p (latest (st p)) st)) = [SetNew] \<or>
   snd (snd (append_or_start e req d p (latest (st p)) st)) = [UpdateAppend]"
  by (auto simp: append_or_start_def update_doc_def Let_def split: option.splits dest: latest_Some)

lemma end_session_calls:
  "hd (snd (snd (end_session e p st))) = QueryLatestForEnd"
  by (auto simp: end_session_def update_doc_def split: option.splits)

lemma snd_snd_respond: "snd (snd (respond hs r)) = snd (snd r)"
  by (auto simp: respond_def split: prod.splits sum.splits)

lemma fst_snd_respond: "fst (snd (respond hs r)) = fst (snd r)"
  by (auto simp: respond_def split: prod.splits sum.splits)

subsection \<open>Every invocation is a transition, and the invariant\<close>

lemma append_or_start_transition:
  "transition (now e) st (fst (snd (append_or_start e req d p (latest (st p)) st)))"
proof -
  let ?elements = "case d of JArr xs \<Rightarrow> xs | _ \<Rightarrow> [d]"
  let ?n = "\<lparr>apiKey = req_apiKey req, tinyCode = req_tinyCode req,
          startedAt = now e, lastActivity = now e, endedAt = None,
          dataBatches = ?elements\<rparr>"
  consider
    (fresh) "st p = [] \<or> (\<exists>i s. latest (st p) = Some (i, s) \<and> endedAt s \<noteq> None)" 
  | (active) i s where "latest (st p) = Some (i, s)" "endedAt s = None"
  proof (cases "latest (st p)")
    case None
    then show ?thesis using that(1) by (simp add: latest_None)
  next
    case (Some a)
    then show ?thesis using that by (cases a; cases "endedAt (snd a)") auto
  qed
  then show ?thesis
  proof cases
    case fresh
    show ?thesis
    proof (cases "set_refused req ?elements")
      case True
      then show ?thesis
        by (simp add: append_or_start_set_refused [where st = st and p = p, OF fresh]
            transition.stays)
    next
      case False
      show ?thesis
      proof (cases "throws e SetNew")
        case None
        have "transition (now e) st (st(p := st p @ [?n]))"
          by (rule transition.starts [where st = st and p = p, OF fresh]) simp_all
        then show ?thesis
          by (simp add: append_or_start_new [where st = st and p = p, OF fresh False None])
      next
        case (Some m)
        with fresh False show ?thesis
          by (auto simp: append_or_start_def Let_def latest_None intro: transition.stays)
      qed
    qed
  next
    case active
    show ?thesis
    proof (cases "arrayUnion_refused ?elements")
      case True
      then show ?thesis
        by (simp add: append_or_start_union_refused [where st = st and p = p, OF active]
            transition.stays)
    next
      case False
      show ?thesis
      proof (cases "throws e UpdateAppend")
        case None
        have "transition (now e) st (st(p := (st p)[i := s\<lparr>lastActivity := now e,
            dataBatches := arrayUnion (dataBatches s) ?elements\<rparr>]))"
          by (rule transition.appends [where st = st and p = p, OF active])
        then show ?thesis
          by (simp add: append_or_start_open [where st = st and p = p, OF active False None])
      next
        case (Some m)
        with active False show ?thesis
          by (auto simp: append_or_start_def Let_def intro: transition.stays)
      qed
    qed
  qed
qed

lemma end_session_transition:
  "transition (now e) st (fst (snd (end_session e p st)))"
proof (cases "latest (st p)")
  case None
  then show ?thesis
    by (auto simp: end_session_def split: option.splits intro: transition.stays)
next
  case (Some a)
  obtain i s where a: "a = (i, s)" by (cases a)
  note l = latest_Some [OF Some [unfolded a]]
  from Some a l show ?thesis
    by (auto simp: end_session_def update_doc_def split: option.splits
        intro: transition.stays transition.closes)
qed

lemma lifecycle_transition:
  "transition (now e) st (fst (snd (lifecycle rt e req st)))"
proof -
  have 1: "transition (now e) st
     (fst (snd (case append_or_start e req d p (latest (st p)) st of
                  (r, st', cs) \<Rightarrow> (r, st', DocRef # QueryLatest # cs))))" for d p
    using append_or_start_transition [of e st req d p] by (auto split: prod.splits)
  have 2: "transition (now e) st
     (fst (snd (case end_session e p st of
                  (r, st', cs) \<Rightarrow> (r, st', DocRef # QueryLatest # cs))))" for p
    using end_session_transition [of e st p] by (auto split: prod.splits)
  show ?thesis
    unfolding lifecycle_def Let_def
    by (auto split: sum.splits option.splits simp: 1 2 intro: transition.stays)
qed

lemma handler_transition:
  "transition (now e) st (fst (snd (handler rt e ev st)))"
  by (auto simp: handler_def try_block_def fst_snd_respond lifecycle_transition
      split: option.splits sum.splits intro: transition.stays)

lemma butlast_update_last: "butlast (xs[length xs - Suc 0 := y]) = butlast xs"
  by (simp add: butlast_list_update)

lemma inv_update_latest:
  assumes "store_inv T st" "T \<le> t" "latest (st p) = Some (i, s)" "startedAt s' = startedAt s"
  shows "store_inv (Suc t) (st(p := (st p)[i := s']))"
proof -
  from assms(3) have ne: "st p \<noteq> []" by auto
  with assms(1) have "latest (st p) = Some (length (st p) - 1, last (st p))"
    by (simp add: store_inv_def latest_sorted)
  with assms(3) have i: "i = length (st p) - 1" by simp
  have m: "map startedAt ((st p)[i := s']) = map startedAt (st p)"
    using latest_Some [OF assms(3)] assms(4) by (simp add: map_update list_update_same_conv)
  have lt: "\<forall>x\<in>set (map startedAt (st q)). x < Suc t" for q
    using assms(1,2) by (fastforce simp: store_inv_def)
  show ?thesis unfolding store_inv_def
  proof (intro allI conjI)
    fix q
    let ?st' = "st(p := (st p)[i := s'])"
    have q: "map startedAt (?st' q) = map startedAt (st q)" using m by simp
    show "sorted_wrt (<) (map startedAt (?st' q))"
      unfolding q using assms(1) by (simp add: store_inv_def)
    have "\<forall>x\<in>set (map startedAt (?st' q)). x < Suc t"
      unfolding q by (rule lt)
    then show "\<forall>s\<in>set (?st' q). startedAt s < Suc t" by simp
    have "butlast (?st' q) = butlast (st q)" using i by (simp add: butlast_update_last)
    then show "\<forall>s\<in>set (butlast (?st' q)). endedAt s \<noteq> None"
      using assms(1) by (simp add: store_inv_def)
  qed
qed

lemma inv_start_new:
  assumes "store_inv T st" "T \<le> t"
    and "st p = [] \<or> (\<exists>i s. latest (st p) = Some (i, s) \<and> endedAt s \<noteq> None)"
    and "startedAt n = t"
  shows "store_inv (Suc t) (st(p := st p @ [n]))"
proof -
  have closed: "\<forall>s\<in>set (st p). endedAt s \<noteq> None"
  proof (cases "st p = []")
    case True
    then show ?thesis by simp
  next
    case False
    with assms(1) have "latest (st p) = Some (length (st p) - 1, last (st p))"
      by (simp add: store_inv_def latest_sorted)
    with assms(3) False have "endedAt (last (st p)) \<noteq> None" by auto
    moreover from assms(1) have "\<forall>s\<in>set (butlast (st p)). endedAt s \<noteq> None"
      by (simp add: store_inv_def)
    moreover from False have "set (st p) = set (butlast (st p)) \<union> {last (st p)}"
      by (metis append_butlast_last_id set_append list.simps(15) empty_set)
    ultimately show ?thesis by auto
  qed
  have before: "\<forall>s\<in>set (st p). startedAt s < t"
    using assms(1,2) by (fastforce simp: store_inv_def)
  have lt: "\<forall>s\<in>set (st q). startedAt s < Suc t" for q
    using assms(1,2) by (fastforce simp: store_inv_def)
  show ?thesis unfolding store_inv_def
  proof (intro allI conjI)
    fix q
    let ?st' = "st(p := st p @ [n])"
    show "sorted_wrt (<) (map startedAt (?st' q))"
      using assms(1,4) before by (auto simp: store_inv_def sorted_wrt_append)
    show "\<forall>s\<in>set (?st' q). startedAt s < Suc t"
      using lt [of q] lt [of p] assms(4) by auto
    show "\<forall>s\<in>set (butlast (?st' q)). endedAt s \<noteq> None"
      using assms(1) closed by (auto simp: store_inv_def)
  qed
qed

lemma transition_inv:
  assumes "transition t st st'" "store_inv T st" "T \<le> t"
  shows "store_inv (Suc t) st'"
  using assms(1)
proof (cases rule: transition.cases)
  case stays
  with assms(2,3) show ?thesis by (fastforce simp: store_inv_def)
next
  case (starts p n)
  then show ?thesis using inv_start_new [OF assms(2,3), of p n] by simp
next
  case (appends p i s ds)
  then show ?thesis using inv_update_latest [OF assms(2,3), of p i s] by simp
next
  case (closes p i s)
  then show ?thesis using inv_update_latest [OF assms(2,3), of p i s] by simp
qed

lemma run_inv:
  "store_inv T st \<Longrightarrow> sorted_wrt (<) (map (\<lambda>r. now (fst r)) reqs) \<Longrightarrow>
   \<forall>r\<in>set reqs. T \<le> now (fst r) \<Longrightarrow> \<exists>T'. store_inv T' (run rt reqs st)"
proof (induction reqs arbitrary: st T)
  case Nil
  then show ?case by auto
next
  case (Cons r reqs)
  obtain e ev where r: "r = (e, ev)" by (cases r)
  from Cons.prems r have "store_inv (Suc (now e)) (fst (snd (handler rt e ev st)))"
    by (intro transition_inv [OF handler_transition]) auto
  moreover from Cons.prems r have "sorted_wrt (<) (map (\<lambda>r. now (fst r)) reqs)" by simp
  moreover from Cons.prems r have "\<forall>r\<in>set reqs. Suc (now e) \<le> now (fst r)" by auto
  ultimately show ?case using Cons.IH r by simp
qed

lemma inv_one_open: 
  assumes "store_inv T st" shows "length (open_sessions st p) \<le> 1"
proof (cases "st p = []")
  case True
  then show ?thesis by (simp add: open_sessions_def)
next
  case False
  then have "st p = butlast (st p) @ [last (st p)]" by simp
  then have "open_sessions st p =
      filter (\<lambda>s. endedAt s = None) (butlast (st p)) @ filter (\<lambda>s. endedAt s = None) [last (st p)]"
    unfolding open_sessions_def by (metis filter_append)
  moreover from assms have "filter (\<lambda>s. endedAt s = None) (butlast (st p)) = []"
    by (auto simp: store_inv_def filter_empty_conv)
  ultimately show ?thesis by simp
qed

subsection \<open>Evaluating the requests of the visitor\<close>

lemmas texts = click_text_def batch_text_def end_text_def false_text_def bare_text_def
  blank_text_def bool_text_def zero_text_def empty_action_text_def empty_batch_text_def
  nested_text_def keyless_text_def region_text_def rounded_text_def

lemma toString_safe: "\<bar>k\<bar> < 2 ^ 53 \<Longrightarrow> toString rt (Integer k) = decimal k"
  by (simp add: toString_def)

lemma decimal_42: "decimal 42 = lit ''42''"
  by (simp add: decimal_def digits.simps lit_def)

lemma trim_42: "trim (lit ''42'') = lit ''42''"
  by (simp add: trim_def lit_def is_ws_def)

lemma not_options: "httpMethod (post text) \<noteq> lit ''OPTIONS''"
  by (simp add: post_def lit_eq_iff)

lemma parse_node:
  "JSON_parse node (body_text (post click_text)) = Some (shop_body [(lit ''data'', JStr (lit ''click''))])"
  "JSON_parse node (body_text (post batch_text)) =
     Some (shop_body [(lit ''data'', JArr [JStr (lit ''scroll''), JStr (lit ''hover'')])])"
  "JSON_parse node (body_text (post end_text)) = Some (shop_body [(lit ''action'', JStr (lit ''end''))])"
  "JSON_parse node (body_text (post false_text)) = Some (shop_body [(lit ''data'', JBool False)])"
  "JSON_parse node (body_text (post bare_text)) = Some (shop_body [])"
  by (simp_all add: node_def post_def body_text_def texts lit_eq_iff lit_eq_Nil_iff)

lemma parse_node_more:
  "JSON_parse node (body_text (post zero_text)) = Some (shop_body [(lit ''data'', JNum (Integer 0))])"
  "JSON_parse node (body_text (post empty_action_text)) =
     Some (shop_body [(lit ''data'', JStr (lit ''click'')), (lit ''action'', JStr [])])"
  "JSON_parse node (body_text (post empty_batch_text)) = Some (shop_body [(lit ''data'', JArr [])])"
  "JSON_parse node (body_text (post nested_text)) =
     Some (shop_body [(lit ''data'', JArr [JStr (lit ''scroll''), JArr [JStr (lit ''hover'')]])])"
  "JSON_parse node (body_text (post keyless_text)) = Some keyless_body"
  "JSON_parse node (body_text (post (lit ''null''))) = Some JNull"
  "JSON_parse node (body_text (post region_text)) = Some region_body"
  "JSON_parse node (body_text (post rounded_text)) = Some rounded_body"
  by (simp_all add: node_def post_def body_text_def texts lit_eq_iff lit_eq_Nil_iff)

lemma parse_node_rejected:
  "JSON_parse node (body_text (post blank_text)) =
     Some (JObj (fmap_of_list
            [(lit ''fingerprint'', JStr (lit ''  '')), (lit ''websiteName'', JStr (lit ''shop'')),
             (lit ''data'', JStr (lit ''click''))]))"
  "JSON_parse node (body_text (post bool_text)) =
     Some (JObj (fmap_of_list
            [(lit ''fingerprint'', JBool True), (lit ''websiteName'', JStr (lit ''shop'')),
             (lit ''data'', JStr (lit ''click''))]))"
  by (simp_all add: node_def post_def body_text_def texts lit_eq_iff lit_eq_Nil_iff)

lemma normalize_shop:
  "normalize node (shop_body extra) =
     Inr (Inr (shop_request (map_of extra (lit ''data'')) (map_of extra (lit ''action''))))"
  by (simp add: normalize_def normalize_fingerprint_def shop_body_def shop_request_def
      toString_safe decimal_42 trim_42 lit_eq_iff lit_eq_Nil_iff fmlookup_of_list)

lemma normalize_node:
  "normalize node (shop_body [(lit ''data'', d)]) = Inr (Inr (shop_request (Some d) None))"
  "normalize node (shop_body [(lit ''action'', a)]) = Inr (Inr (shop_request None (Some a)))"
  "normalize node (shop_body []) = Inr (Inr (shop_request None None))"
  "normalize node (shop_body [(lit ''data'', d), (lit ''action'', a)]) =
     Inr (Inr (shop_request (Some d) (Some a)))"
  by (simp_all add: normalize_shop lit_simps)


lemma normalize_region:
  "normalize node region_body =
     Inr (Inr \<lparr>req_apiKey = Some (JStr (lit ''k1'')), req_tinyCode = Some (JStr (lit ''t1'')),
               fingerprint = lit ''42'', data = Some (JStr (lit ''click'')), action = None,
               websiteName = Some (JStr (lit ''shop/eu''))\<rparr>)"
  by (simp add: normalize_def normalize_fingerprint_def region_body_def
      toString_safe decimal_42 trim_42 lit_eq_iff lit_eq_Nil_iff fmlookup_of_list)

lemma region_path:
  "websiteName req = Some (JStr (lit ''shop/eu'')) \<Longrightarrow>
   sessionsCollRef e req = Inl InvalidResourcePath"
  by (simp add: sessionsCollRef_def validateResourcePath_def split_path_def lit_def)

lemma shop_path:
  "websiteName req = Some (JStr (lit ''shop'')) \<Longrightarrow> fingerprint req = lit ''42'' \<Longrightarrow>
   sessionsCollRef (env_at t) req = Inr shop_sessions"
  by (simp add: sessionsCollRef_def validateResourcePath_def split_path_def shop_sessions_def
      env_at_def lit_def)

lemma shop_ref: "sessionsCollRef (env_at t) (shop_request d a) = Inr shop_sessions"
  by (rule shop_path) (simp_all add: shop_request_def)

lemma env_at_simps [simp]: "throws (env_at t) c = None" "now (env_at t) = t"
  by (simp_all add: env_at_def)

lemma shop_request_simps [simp]:
  "data (shop_request d a) = d" "action (shop_request d a) = a"
  "req_apiKey (shop_request d a) = Some (JStr (lit ''k1''))"
  "req_tinyCode (shop_request d a) = Some (JStr (lit ''t1''))"
  "fingerprint (shop_request d a) = lit ''42''"
  by (simp_all add: shop_request_def)

lemma example_simps:
  "no_sessions p = []"
  "startedAt (shop_session a b c d) = a"
  "lastActivity (shop_session a b c d) = b"
  "endedAt (shop_session a b c d) = c"
  "dataBatches (shop_session a b c d) = d"
  "shop_session a b c d\<lparr>lastActivity := b'\<rparr> = shop_session a b' c d"
  "shop_session a b c d\<lparr>endedAt := c'\<rparr> = shop_session a b c' d"
  "shop_session a b c d\<lparr>dataBatches := d'\<rparr> = shop_session a b c d'"
  by (simp_all add: no_sessions_def shop_session_def)

lemmas eval = handler_def try_block_def lifecycle_def append_or_start_def end_session_def
  update_doc_def respond_def Let_def arrayUnion_def set_refused_def arrayUnion_refused_def
  not_options

lemma scenario_run:
  "run node scenario no_sessions =
     no_sessions(shop_sessions :=
       [shop_session 1 3 (Some 3) [JStr (lit ''click''), JStr (lit ''scroll''), JStr (lit ''hover'')],
        shop_session 4 4 None [JStr (lit ''click'')]])"
  by (simp add: scenario_def eval parse_node normalize_node shop_ref example_simps lit_simps)
    (simp add: shop_session_def)

subsection \<open>Failures before a branch is selected\<close>

lemma lifecycle_no_ref:
  "sessionsCollRef e req = Inl x \<Longrightarrow> lifecycle rt e req st = (Inl x, st, [DocRef])"
  by (simp add: lifecycle_def)

lemma lifecycle_query_throws:
  "sessionsCollRef e req = Inr p \<Longrightarrow> throws e QueryLatest = Some m \<Longrightarrow>
   lifecycle rt e req st = (Inl (Thrown QueryLatest m), st, [DocRef, QueryLatest])"
  by (simp add: lifecycle_def)

subsection \<open>The time of the last activity\<close>

text \<open>
  No transition sets \<open>lastActivity\<close> to anything but the server time of its invocation.
  So in a run whose server times are at most \<open>T\<close>, from a store whose sessions were last
  active at \<open>T\<close> at the latest, every session was last active at \<open>T\<close> at the latest: when
  server time does not run backwards, an invocation finds no session that was active
  after its own server time.
\<close>

lemma transition_lastActivity:
  assumes "transition t st st'" "t \<le> T" "\<forall>p. \<forall>s\<in>set (st p). lastActivity s \<le> T"
  shows "\<forall>p. \<forall>s\<in>set (st' p). lastActivity s \<le> T"
  using assms(1)
proof (cases rule: transition.cases)
  case stays
  with assms(3) show ?thesis by simp
next
  case (starts p n)
  with assms(2,3) show ?thesis by auto
next
  case (appends p i s ds)
  show ?thesis
  proof (intro allI ballI)
    fix q r assume "r \<in> set (st' q)"
    with appends have "r \<in> set (st q) \<or> r = s\<lparr>lastActivity := t, dataBatches := ds\<rparr>"
      using set_update_subset_insert [of "st p" i] by (auto split: if_splits)
    with assms(2,3) show "lastActivity r \<le> T" by auto
  qed
next
  case (closes p i s)
  show ?thesis
  proof (intro allI ballI)
    fix q r assume "r \<in> set (st' q)"
    with closes have "r \<in> set (st q) \<or> r = s\<lparr>endedAt := Some t, lastActivity := t\<rparr>"
      using set_update_subset_insert [of "st p" i] by (auto split: if_splits)
    with assms(2,3) show "lastActivity r \<le> T" by auto
  qed
qed

lemma run_lastActivity:
  assumes "\<forall>r\<in>set reqs. now (fst r) \<le> T" "\<forall>p. \<forall>s\<in>set (st p). lastActivity s \<le> T"
  shows "\<forall>p. \<forall>s\<in>set (run rt reqs st p). lastActivity s \<le> T"
  using assms
proof (induction reqs arbitrary: st)
  case Nil
  then show ?case by simp
next
  case (Cons r reqs)
  obtain e ev where r: "r = (e, ev)" by (cases r)
  from Cons.prems r have "now e \<le> T" by simp
  from transition_lastActivity [OF handler_transition this Cons.prems(2)]
  have "\<forall>p. \<forall>s\<in>set (fst (snd (handler rt e ev st)) p). lastActivity s \<le> T" .
  with Cons.IH [of "fst (snd (handler rt e ev st))"] Cons.prems(1) r show ?case by simp
qed

subsection \<open>Integers beyond the safe range\<close>

lemma decimal_sextillion: "decimal 1000000000000000000000 = lit ''1000000000000000000000''"
  by (simp add: decimal_def digits.simps lit_def)

lemma decimal_unsafe: "decimal 9007199254740993 = lit ''9007199254740993''"
  by (simp add: decimal_def digits.simps lit_def)

section \<open>The claims\<close>




text \<open>
  Claim C2, as the code has it. Let a request reach the append/start branch while the
  latest session is open (\<open>endedAt\<close> is null), let \<open>update\<close> not fail for a reason outside
  the request, and let the server time be no earlier than the \<open>lastActivity\<close> of that
  session (server time does not run backwards, see \<open>run_lastActivity\<close>). The elements to
  add are those of \<open>data\<close> when it is an array and \<open>data\<close> itself otherwise. When there is
  at least one, and none of them is an array or holds an array inside an array, the
  handler changes that document and no other: \<open>startedAt\<close>, \<open>endedAt\<close>, \<open>apiKey\<close> and
  \<open>tinyCode\<close> stay, \<open>lastActivity\<close> advances to the server time, and \<open>dataBatches\<close> becomes
  the array union of itself with the elements; the response is 200 with
  \<open>newSessionStarted = false\<close>. Otherwise \<open>arrayUnion\<close> or \<open>update\<close> refuses, the store is
  unchanged and the response is 500. The array union is the old array followed by the
  elements it did not hold yet, each once.
\<close>

theorem append_to_open_session:
  assumes "httpMethod ev \<noteq> lit ''OPTIONS''"
    and "JSON_parse rt (body_text ev) = Some b"
    and "normalize rt b = Inr (Inr req)"
    and "sessionsCollRef e req = Inr p"
    and "throws e QueryLatest = None"
    and "data req = Some d"
    and "truthy rt (Some d)"
    and "\<not> truthy rt (action req) \<or> action req = Some (JStr (lit ''append''))"
    and "latest (st p) = Some (i, s)"
    and "endedAt s = None"
    and "throws e UpdateAppend = None"
    and "lastActivity s \<le> now e"
  shows "(if (case d of JArr xs \<Rightarrow> xs | _ \<Rightarrow> [d]) \<noteq> [] \<and>
             (\<forall>x\<in>set (case d of JArr xs \<Rightarrow> xs | _ \<Rightarrow> [d]). storable x True)
          then handler rt e ev st =
            (\<lparr>statusCode = 200, headers = cors e ev,
              body = SessionUpdated True (lit ''Added data to the existing active session.'') False\<rparr>,
             st(p := (st p)[i := s\<lparr>lastActivity := now e,
                  dataBatches := arrayUnion (dataBatches s) (case d of JArr xs \<Rightarrow> xs | _ \<Rightarrow> [d])\<rparr>]),
             [DocRef, QueryLatest, UpdateAppend]) \<and>
            lastActivity s \<le> lastActivity (fst (snd (handler rt e ev st)) p ! i)
          else handler rt e ev st =
            (\<lparr>statusCode = 500, headers = cors e ev,
              body = InternalError (lit ''Internal Server Error'') (Refused UpdateAppend)\<rparr>,
             st, [DocRef, QueryLatest, UpdateAppend]))
    \<and> (\<exists>new. arrayUnion (dataBatches s) (case d of JArr xs \<Rightarrow> xs | _ \<Rightarrow> [d]) = dataBatches s @ new
          \<and> distinct new
          \<and> set new = set (case d of JArr xs \<Rightarrow> xs | _ \<Rightarrow> [d]) - set (dataBatches s))"
proof -
  let ?els = "case d of JArr xs \<Rightarrow> xs | _ \<Rightarrow> [d]"
  have r: "arrayUnion_refused ?els \<longleftrightarrow> \<not> (?els \<noteq> [] \<and> (\<forall>x\<in>set ?els. storable x True))"
    by (auto simp: arrayUnion_refused_def)
  note h = handler_lifecycle [OF assms(1-3)] lifecycle_append [OF assms(4-8)]
  note l = latest_Some [OF assms(9)]
  have "if ?els \<noteq> [] \<and> (\<forall>x\<in>set ?els. storable x True)
          then handler rt e ev st =
            (\<lparr>statusCode = 200, headers = cors e ev,
              body = SessionUpdated True (lit ''Added data to the existing active session.'') False\<rparr>,
             st(p := (st p)[i := s\<lparr>lastActivity := now e,
                  dataBatches := arrayUnion (dataBatches s) ?els\<rparr>]),
             [DocRef, QueryLatest, UpdateAppend]) \<and>
            lastActivity s \<le> lastActivity (fst (snd (handler rt e ev st)) p ! i)
          else handler rt e ev st =
            (\<lparr>statusCode = 500, headers = cors e ev,
              body = InternalError (lit ''Internal Server Error'') (Refused UpdateAppend)\<rparr>,
             st, [DocRef, QueryLatest, UpdateAppend])"
  proof (cases "arrayUnion_refused ?els")
    case True
    with r show ?thesis
      by (simp add: h append_or_start_union_refused [where st = st and p = p, OF assms(9,10) True]
          respond_def)
  next
    case False
    with r l assms(12) show ?thesis
      by (simp add: h
          append_or_start_open [where st = st and p = p, OF assms(9,10) False assms(11)]
          respond_def)
  qed
  then show ?thesis using arrayUnion_new [of "dataBatches s" ?els] by blast
qed

text \<open>
  Claim C2 as it is stated says that \<open>dataBatches\<close> grows by every element of \<open>data\<close>,
  whether or not the array holds it already, and that for every request. It does not:
  the open session holds \<open>"click"\<close>, a second \<open>"click"\<close> is answered with "Added data to the
  existing active session.", and \<open>dataBatches\<close> is what it was. With \<open>data = []\<close>, and with
  \<open>data = ["scroll", ["hover"]]\<close>, the response is 500 and the session is untouched.
\<close>

theorem append_to_open_session_counterexample:
  "handler node (env_at 2) (post click_text)
       (no_sessions(shop_sessions := [shop_session 1 1 None [JStr (lit ''click'')]])) =
     (\<lparr>statusCode = 200, headers = cors (env_at 2) (post click_text),
       body = SessionUpdated True (lit ''Added data to the existing active session.'') False\<rparr>,
      no_sessions(shop_sessions := [shop_session 1 2 None [JStr (lit ''click'')]]),
      [DocRef, QueryLatest, UpdateAppend])
   \<and> dataBatches (shop_session 1 2 None [JStr (lit ''click'')]) \<noteq>
       dataBatches (shop_session 1 1 None [JStr (lit ''click'')]) @ [JStr (lit ''click'')]
   \<and> JSON_parse node (body_text (post empty_batch_text)) = Some (shop_body [(lit ''data'', JArr [])])
   \<and> handler node (env_at 2) (post empty_batch_text)
       (no_sessions(shop_sessions := [shop_session 1 1 None [JStr (lit ''click'')]])) =
     (\<lparr>statusCode = 500, headers = cors (env_at 2) (post empty_batch_text),
       body = InternalError (lit ''Internal Server Error'') (Refused UpdateAppend)\<rparr>,
      no_sessions(shop_sessions := [shop_session 1 1 None [JStr (lit ''click'')]]),
      [DocRef, QueryLatest, UpdateAppend])
   \<and> JSON_parse node (body_text (post nested_text)) =
       Some (shop_body [(lit ''data'', JArr [JStr (lit ''scroll''), JArr [JStr (lit ''hover'')]])])
   \<and> handler node (env_at 2) (post nested_text)
       (no_sessions(shop_sessions := [shop_session 1 1 None [JStr (lit ''click'')]])) =
     (\<lparr>statusCode = 500, headers = cors (env_at 2) (post nested_text),
       body = InternalError (lit ''Internal Server Error'') (Refused UpdateAppend)\<rparr>,
      no_sessions(shop_sessions := [shop_session 1 1 None [JStr (lit ''click'')]]),
      [DocRef, QueryLatest, UpdateAppend])"
  by (simp add: eval parse_node(1) parse_node_more(3,4) normalize_shop shop_ref example_simps
      lit_simps)

text \<open>
  A batch of two new data points added to the open session of the visitor; an empty
  batch; a batch with an array among its elements.
\<close>

theorem append_to_open_session_witness:
  "handler node (env_at 2) (post batch_text)
       (no_sessions(shop_sessions := [shop_session 1 1 None [JStr (lit ''click'')]])) =
     (\<lparr>statusCode = 200, headers = cors (env_at 2) (post batch_text),
       body = SessionUpdated True (lit ''Added data to the existing active session.'') False\<rparr>,
      no_sessions(shop_sessions :=
        [shop_session 1 2 None [JStr (lit ''click''), JStr (lit ''scroll''), JStr (lit ''hover'')]]),
      [DocRef, QueryLatest, UpdateAppend])
   \<and> handler node (env_at 2) (post empty_batch_text)
       (no_sessions(shop_sessions := [shop_session 1 1 None [JStr (lit ''click'')]])) =
     (\<lparr>statusCode = 500, headers = cors (env_at 2) (post empty_batch_text),
       body = InternalError (lit ''Internal Server Error'') (Refused UpdateAppend)\<rparr>,
      no_sessions(shop_sessions := [shop_session 1 1 None [JStr (lit ''click'')]]),
      [DocRef, QueryLatest, UpdateAppend])
   \<and> handler node (env_at 2) (post nested_text)
       (no_sessions(shop_sessions := [shop_session 1 1 None [JStr (lit ''click'')]])) =
     (\<lparr>statusCode = 500, headers = cors (env_at 2) (post nested_text),
       body = InternalError (lit ''Internal Server Error'') (Refused UpdateAppend)\<rparr>,
      no_sessions(shop_sessions := [shop_session 1 1 None [JStr (lit ''click'')]]),
      [DocRef, QueryLatest, UpdateAppend])"
proof -
  let ?st = "no_sessions(shop_sessions := [shop_session 1 1 None [JStr (lit ''click'')]])"
  have l: "latest (?st shop_sessions) = Some (0, shop_session 1 1 None [JStr (lit ''click'')])"
    by simp
  have o: "endedAt (shop_session 1 1 None [JStr (lit ''click'')]) = None"
    and c: "lastActivity (shop_session 1 1 None [JStr (lit ''click'')]) \<le> now (env_at 2)"
    by (simp_all add: example_simps)
  have a: "\<not> truthy node (action (shop_request (Some d) None)) \<or>
      action (shop_request (Some d) None) = Some (JStr (lit ''append''))" for d
    by simp
  have d: "data (shop_request (Some d) None) = Some d" for d :: "unit json"
    by simp
  have t: "truthy node (Some (JArr xs))" for xs
    by simp
  from append_to_open_session [where st = ?st and p = shop_sessions,
      OF not_options parse_node(2) normalize_node(1) shop_ref env_at_simps(1) d t a l o
        env_at_simps(1) c]
  have 1: "handler node (env_at 2) (post batch_text) ?st =
     (\<lparr>statusCode = 200, headers = cors (env_at 2) (post batch_text),
       body = SessionUpdated True (lit ''Added data to the existing active session.'') False\<rparr>,
      no_sessions(shop_sessions :=
        [shop_session 1 2 None [JStr (lit ''click''), JStr (lit ''scroll''), JStr (lit ''hover'')]]),
      [DocRef, QueryLatest, UpdateAppend])"
    by (simp add: example_simps arrayUnion_def lit_simps)
  from append_to_open_session [where st = ?st and p = shop_sessions,
      OF not_options parse_node_more(3) normalize_node(1) shop_ref env_at_simps(1) d t a l o
        env_at_simps(1) c]
  have 2: "handler node (env_at 2) (post empty_batch_text) ?st =
     (\<lparr>statusCode = 500, headers = cors (env_at 2) (post empty_batch_text),
       body = InternalError (lit ''Internal Server Error'') (Refused UpdateAppend)\<rparr>,
      ?st, [DocRef, QueryLatest, UpdateAppend])"
    by simp
  from append_to_open_session [where st = ?st and p = shop_sessions,
      OF not_options parse_node_more(4) normalize_node(1) shop_ref env_at_simps(1) d t a l o
        env_at_simps(1) c]
  have 3: "handler node (env_at 2) (post nested_text) ?st =
     (\<lparr>statusCode = 500, headers = cors (env_at 2) (post nested_text),
       body = InternalError (lit ''Internal Server Error'') (Refused UpdateAppend)\<rparr>,
      ?st, [DocRef, QueryLatest, UpdateAppend])"
    by simp
  from 1 2 3 show ?thesis by simp
qed

text \<open>
  Claim C3. A request reaches the close branch when it passes the normalizer, its
  \<open>action\<close> is \<open>"end"\<close> (the condition of line 105 is then false) and the references and
  the two queries do not throw. When the sub-collection holds no session the response is
  404 "No active session found for this fingerprint." and nothing is written. When the
  latest session has a non-null \<open>endedAt\<close> the response is 400 "Session has already ended."
  and the store is unchanged. Otherwise, when \<open>update\<close> and \<open>get\<close> do not throw, the
  handler sets \<open>endedAt = lastActivity =\<close> the server time on that document with one
  \<open>update\<close>, changes nothing else, and answers 200 with the whole closed session.
\<close>

theorem close_session:
  assumes "httpMethod ev \<noteq> lit ''OPTIONS''"
    and "JSON_parse rt (body_text ev) = Some b"
    and "normalize rt b = Inr (Inr req)"
    and "sessionsCollRef e req = Inr p"
    and "throws e QueryLatest = None"
    and "action req = Some (JStr (lit ''end''))"
    and "throws e QueryLatestForEnd = None"
  shows "(st p = [] \<longrightarrow>
            handler rt e ev st =
              (\<lparr>statusCode = 404, headers = cors e ev,
                body = ErrorBody (lit ''No active session found for this fingerprint.'')\<rparr>,
               st, [DocRef, QueryLatest, QueryLatestForEnd]))
       \<and> (\<forall>i s. latest (st p) = Some (i, s) \<and> endedAt s \<noteq> None \<longrightarrow>
            handler rt e ev st =
              (\<lparr>statusCode = 400, headers = cors e ev,
                body = ErrorBody (lit ''Session has already ended.'')\<rparr>,
               st, [DocRef, QueryLatest, QueryLatestForEnd]))
       \<and> (\<forall>i s. latest (st p) = Some (i, s) \<and> endedAt s = None
                 \<and> throws e UpdateEnd = None \<and> throws e GetFinal = None \<longrightarrow>
            handler rt e ev st =
              (\<lparr>statusCode = 200, headers = cors e ev,
                body = SessionEnded (lit ''Session ended. Data stored in Firestore.'')
                         (s\<lparr>endedAt := Some (now e), lastActivity := now e\<rparr>)\<rparr>,
               st(p := (st p)[i := s\<lparr>endedAt := Some (now e), lastActivity := now e\<rparr>]),
               [DocRef, QueryLatest, QueryLatestForEnd, UpdateEnd, GetFinal]))"
proof -
  note h = handler_lifecycle [OF assms(1-3)] lifecycle_end [OF assms(4-6)]
  show ?thesis
  proof (intro conjI allI impI)
    assume "st p = []"
    then show "handler rt e ev st =
              (\<lparr>statusCode = 404, headers = cors e ev,
                body = ErrorBody (lit ''No active session found for this fingerprint.'')\<rparr>,
               st, [DocRef, QueryLatest, QueryLatestForEnd])"
      by (simp add: h end_session_none [OF assms(7)] respond_def)
  next
    fix i s assume "latest (st p) = Some (i, s) \<and> endedAt s \<noteq> None"
    then show "handler rt e ev st =
              (\<lparr>statusCode = 400, headers = cors e ev,
                body = ErrorBody (lit ''Session has already ended.'')\<rparr>,
               st, [DocRef, QueryLatest, QueryLatestForEnd])"
      by (simp add: h end_session_closed [where st = st and p = p, OF assms(7)] respond_def)
  next
    fix i s assume "latest (st p) = Some (i, s) \<and> endedAt s = None
                 \<and> throws e UpdateEnd = None \<and> throws e GetFinal = None"
    then show "handler rt e ev st =
              (\<lparr>statusCode = 200, headers = cors e ev,
                body = SessionEnded (lit ''Session ended. Data stored in Firestore.'')
                         (s\<lparr>endedAt := Some (now e), lastActivity := now e\<rparr>)\<rparr>,
               st(p := (st p)[i := s\<lparr>endedAt := Some (now e), lastActivity := now e\<rparr>]),
               [DocRef, QueryLatest, QueryLatestForEnd, UpdateEnd, GetFinal])"
      by (simp add: h end_session_open [where st = st and p = p, OF assms(7)] respond_def)
  qed
qed

text \<open>Ending without a session, ending a closed session, and ending the open session.\<close>

theorem close_session_witness:
  "handler node (env_at 1) (post end_text) no_sessions =
     (\<lparr>statusCode = 404, headers = cors (env_at 1) (post end_text),
       body = ErrorBody (lit ''No active session found for this fingerprint.'')\<rparr>,
      no_sessions, [DocRef, QueryLatest, QueryLatestForEnd])
   \<and> handler node (env_at 4) (post end_text)
       (no_sessions(shop_sessions := [shop_session 1 3 (Some 3) [JStr (lit ''click'')]])) =
     (\<lparr>statusCode = 400, headers = cors (env_at 4) (post end_text),
       body = ErrorBody (lit ''Session has already ended.'')\<rparr>,
      no_sessions(shop_sessions := [shop_session 1 3 (Some 3) [JStr (lit ''click'')]]),
      [DocRef, QueryLatest, QueryLatestForEnd])
   \<and> handler node (env_at 3) (post end_text)
       (no_sessions(shop_sessions := [shop_session 1 1 None [JStr (lit ''click'')]])) =
     (\<lparr>statusCode = 200, headers = cors (env_at 3) (post end_text),
       body = SessionEnded (lit ''Session ended. Data stored in Firestore.'')
                (shop_session 1 3 (Some 3) [JStr (lit ''click'')])\<rparr>,
      no_sessions(shop_sessions := [shop_session 1 3 (Some 3) [JStr (lit ''click'')]]),
      [DocRef, QueryLatest, QueryLatestForEnd, UpdateEnd, GetFinal])"
proof -
  let ?closed = "no_sessions(shop_sessions := [shop_session 1 3 (Some 3) [JStr (lit ''click'')]])"
  let ?opened = "no_sessions(shop_sessions := [shop_session 1 1 None [JStr (lit ''click'')]])"
  have a: "action (shop_request None (Some (JStr (lit ''end'')))) = Some (JStr (lit ''end''))"
    by simp
  note h = not_options parse_node(3) normalize_node(2) shop_ref env_at_simps(1) a env_at_simps(1)
  from close_session [where st = no_sessions and p = shop_sessions and e = "env_at 1", OF h]
    close_session [where st = ?closed and p = shop_sessions and e = "env_at 4", OF h]
    close_session [where st = ?opened and p = shop_sessions and e = "env_at 3", OF h]
  show ?thesis by (simp add: example_simps)
qed

text \<open>
  Claim C4, as the code has it. Take a request that passes the normalizer. When its
  \<open>websiteName\<close> and fingerprint make no valid path, or building the references throws,
  the response is 500 after that one call; when the query of line 99 throws, the response
  is 500 after the two calls; in both cases no branch is reached. Otherwise exactly one
  branch runs, in this order: when \<open>data\<close> is truthy and \<open>action\<close> is falsy or equals
  \<open>"append"\<close>, the append/start branch (its write, \<open>set\<close> or \<open>update\<close>, is the third call);
  otherwise, when \<open>action\<close> equals \<open>"end"\<close>, the close branch (the query of line 171 is the
  third call); otherwise the no-op branch, which answers "Session not updated." after the
  two calls. A value is truthy when it is present and is not \<open>null\<close>, \<open>false\<close>, the number
  zero or the empty string.
\<close>

theorem branch_selection:
  assumes "httpMethod ev \<noteq> lit ''OPTIONS''"
    and "JSON_parse rt (body_text ev) = Some b"
    and "normalize rt b = Inr (Inr req)"
  shows "(\<forall>p. sessionsCollRef e req = Inr p \<and> throws e QueryLatest = None \<longrightarrow>
           (truthy rt (data req) \<and>
              (\<not> truthy rt (action req) \<or> action req = Some (JStr (lit ''append''))) \<longrightarrow>
            snd (snd (handler rt e ev st)) = [DocRef, QueryLatest, SetNew] \<or>
            snd (snd (handler rt e ev st)) = [DocRef, QueryLatest, UpdateAppend])
         \<and> (\<not> (truthy rt (data req) \<and>
                 (\<not> truthy rt (action req) \<or> action req = Some (JStr (lit ''append'')))) \<and>
            action req = Some (JStr (lit ''end'')) \<longrightarrow>
            take 3 (snd (snd (handler rt e ev st))) = [DocRef, QueryLatest, QueryLatestForEnd])
         \<and> (\<not> (truthy rt (data req) \<and>
                 (\<not> truthy rt (action req) \<or> action req = Some (JStr (lit ''append'')))) \<and>
            action req \<noteq> Some (JStr (lit ''end'')) \<longrightarrow>
            handler rt e ev st =
              (\<lparr>statusCode = 200, headers = cors e ev,
                body = NotUpdated (lit ''Session not updated.'') (fingerprint req)\<rparr>,
               st, [DocRef, QueryLatest])))
       \<and> (\<forall>x. sessionsCollRef e req = Inl x \<longrightarrow>
           handler rt e ev st =
             (\<lparr>statusCode = 500, headers = cors e ev,
               body = InternalError (lit ''Internal Server Error'') x\<rparr>, st, [DocRef]))
       \<and> (\<forall>p m. sessionsCollRef e req = Inr p \<and> throws e QueryLatest = Some m \<longrightarrow>
           handler rt e ev st =
             (\<lparr>statusCode = 500, headers = cors e ev,
               body = InternalError (lit ''Internal Server Error'') (Thrown QueryLatest m)\<rparr>,
              st, [DocRef, QueryLatest]))
       \<and> (\<forall>x. truthy rt x \<longleftrightarrow>
            (\<exists>v. x = Some v \<and> v \<noteq> JNull \<and> v \<noteq> JBool False \<and> v \<noteq> JNum (Integer 0) \<and>
                 v \<noteq> JStr []))"
proof (intro conjI impI allI)
  note h = handler_lifecycle [OF assms(1-3)]
  {
    fix p
    assume r: "sessionsCollRef e req = Inr p \<and> throws e QueryLatest = None"
    then have ref: "sessionsCollRef e req = Inr p" and q: "throws e QueryLatest = None"
      by simp_all
    {
      assume a: "truthy rt (data req) \<and>
        (\<not> truthy rt (action req) \<or> action req = Some (JStr (lit ''append'')))"
      then obtain d where d: "data req = Some d" by (cases "data req") auto
      with a have t: "truthy rt (Some d)"
        and c: "\<not> truthy rt (action req) \<or> action req = Some (JStr (lit ''append''))" by auto
      have "snd (snd (handler rt e ev st)) =
          DocRef # QueryLatest # snd (snd (append_or_start e req d p (latest (st p)) st))"
        by (simp add: h lifecycle_append [OF ref q d t c] snd_snd_respond split: prod.splits)
      with append_or_start_calls [of e req d p st]
      show "snd (snd (handler rt e ev st)) = [DocRef, QueryLatest, SetNew] \<or>
            snd (snd (handler rt e ev st)) = [DocRef, QueryLatest, UpdateAppend]"
        by auto
    }
    {
      assume a: "\<not> (truthy rt (data req) \<and>
                 (\<not> truthy rt (action req) \<or> action req = Some (JStr (lit ''append'')))) \<and>
            action req = Some (JStr (lit ''end''))"
      then have "snd (snd (handler rt e ev st)) =
          DocRef # QueryLatest # snd (snd (end_session e p st))"
        by (simp add: h lifecycle_end [OF ref q] snd_snd_respond split: prod.splits)
      moreover have "snd (snd (end_session e p st)) \<noteq> []"
        by (auto simp: end_session_def update_doc_def split: option.splits)
      ultimately show "take 3 (snd (snd (handler rt e ev st))) = [DocRef, QueryLatest, QueryLatestForEnd]"
        using end_session_calls [of e p st]
        by (cases "snd (snd (end_session e p st))") auto
    }
    {
      assume a: "\<not> (truthy rt (data req) \<and>
                 (\<not> truthy rt (action req) \<or> action req = Some (JStr (lit ''append'')))) \<and>
            action req \<noteq> Some (JStr (lit ''end''))"
      then show "handler rt e ev st =
              (\<lparr>statusCode = 200, headers = cors e ev,
                body = NotUpdated (lit ''Session not updated.'') (fingerprint req)\<rparr>,
               st, [DocRef, QueryLatest])"
        by (simp add: h lifecycle_noop [OF ref q] respond_def)
    }
  }
  {
    fix x assume "sessionsCollRef e req = Inl x"
    then show "handler rt e ev st =
             (\<lparr>statusCode = 500, headers = cors e ev,
               body = InternalError (lit ''Internal Server Error'') x\<rparr>, st, [DocRef])"
      by (simp add: h lifecycle_no_ref respond_def)
  }
  {
    fix p m assume "sessionsCollRef e req = Inr p \<and> throws e QueryLatest = Some m"
    then show "handler rt e ev st =
             (\<lparr>statusCode = 500, headers = cors e ev,
               body = InternalError (lit ''Internal Server Error'') (Thrown QueryLatest m)\<rparr>,
              st, [DocRef, QueryLatest])"
      by (simp add: h lifecycle_query_throws respond_def)
  }
  fix x
  show "truthy rt x \<longleftrightarrow>
            (\<exists>v. x = Some v \<and> v \<noteq> JNull \<and> v \<noteq> JBool False \<and> v \<noteq> JNum (Integer 0) \<and>
                 v \<noteq> JStr [])"
    by (rule truthy_iff)
qed

text \<open>
  Claim C4 as it is stated says that for every normalized request the append/start branch
  runs whenever \<open>data\<close> is present and \<open>action\<close> is absent or \<open>"append"\<close>, whatever the value
  of \<open>data\<close>, and that no other request enters it. With \<open>"data": false\<close> and no \<open>action\<close> the
  handler answers "Session not updated." and writes nothing. With \<open>"data": "click"\<close> and
  \<open>"action": ""\<close>, an action that is present and is not \<open>"append"\<close>, the append/start branch
  runs and starts a session. With \<open>"websiteName": "shop/eu"\<close>, \<open>"data": "click"\<close> and no
  \<open>action\<close> the request is normalized and no branch runs: \<open>db.collection\<close> refuses a path
  of two segments, and the response is 500.
\<close>

theorem branch_selection_counterexample:
  "property (shop_body [(lit ''data'', JBool False)]) (lit ''data'') = Some (JBool False)
   \<and> property (shop_body [(lit ''data'', JBool False)]) (lit ''action'') = None
   \<and> JSON_parse node (body_text (post false_text)) = Some (shop_body [(lit ''data'', JBool False)])
   \<and> handler node (env_at 1) (post false_text) no_sessions =
     (\<lparr>statusCode = 200, headers = cors (env_at 1) (post false_text),
       body = NotUpdated (lit ''Session not updated.'') (lit ''42'')\<rparr>,
      no_sessions, [DocRef, QueryLatest])
   \<and> property (shop_body [(lit ''data'', JStr (lit ''click'')), (lit ''action'', JStr [])])
        (lit ''action'') = Some (JStr [])
   \<and> JSON_parse node (body_text (post empty_action_text)) =
        Some (shop_body [(lit ''data'', JStr (lit ''click'')), (lit ''action'', JStr [])])
   \<and> handler node (env_at 1) (post empty_action_text) no_sessions =
     (\<lparr>statusCode = 200, headers = cors (env_at 1) (post empty_action_text),
       body = SessionUpdated True (lit ''Started a new session and recorded data.'') True\<rparr>,
      no_sessions(shop_sessions := [shop_session 1 1 None [JStr (lit ''click'')]]),
      [DocRef, QueryLatest, SetNew])
   \<and> property region_body (lit ''data'') = Some (JStr (lit ''click''))
   \<and> property region_body (lit ''action'') = None
   \<and> JSON_parse node (body_text (post region_text)) = Some region_body
   \<and> (\<exists>req. normalize node region_body = Inr (Inr req))
   \<and> handler node (env_at 1) (post region_text) no_sessions =
     (\<lparr>statusCode = 500, headers = cors (env_at 1) (post region_text),
       body = InternalError (lit ''Internal Server Error'') InvalidResourcePath\<rparr>,
      no_sessions, [DocRef])"
proof -
  have ref: "sessionsCollRef e
      \<lparr>req_apiKey = Some (JStr (lit ''k1'')), req_tinyCode = Some (JStr (lit ''t1'')),
        fingerprint = lit ''42'', data = Some (JStr (lit ''click'')), action = None,
        websiteName = Some (JStr (lit ''shop/eu''))\<rparr> = Inl InvalidResourcePath" for e
    by (rule region_path) simp
  show ?thesis
    by (simp add: eval parse_node(4) parse_node_more(2,7) normalize_node normalize_region shop_ref ref
        example_simps lit_simps)
      (simp add: shop_body_def region_body_def shop_session_def lit_simps fmlookup_of_list)
qed

text \<open>
  One request for each branch, and one whose \<open>data\<close> is the number zero, on a store
  without sessions.
\<close>

theorem branch_selection_witness:
  "(snd (snd (handler node (env_at 1) (post click_text) no_sessions)) = [DocRef, QueryLatest, SetNew] \<or>
    snd (snd (handler node (env_at 1) (post click_text) no_sessions)) = [DocRef, QueryLatest, UpdateAppend])
   \<and> take 3 (snd (snd (handler node (env_at 1) (post end_text) no_sessions))) =
       [DocRef, QueryLatest, QueryLatestForEnd]
   \<and> handler node (env_at 1) (post bare_text) no_sessions =
       (\<lparr>statusCode = 200, headers = cors (env_at 1) (post bare_text),
         body = NotUpdated (lit ''Session not updated.'') (lit ''42'')\<rparr>,
        no_sessions, [DocRef, QueryLatest])
   \<and> handler node (env_at 1) (post zero_text) no_sessions =
       (\<lparr>statusCode = 200, headers = cors (env_at 1) (post zero_text),
         body = NotUpdated (lit ''Session not updated.'') (lit ''42'')\<rparr>,
        no_sessions, [DocRef, QueryLatest])"
proof -
  have r: "sessionsCollRef (env_at 1) (shop_request d a) = Inr shop_sessions \<and>
      throws (env_at 1) QueryLatest = None" for d a
    by (simp add: shop_ref)
  from branch_selection [where st = no_sessions and e = "env_at 1",
      OF not_options parse_node(1) normalize_node(1)] r
  have 1: "snd (snd (handler node (env_at 1) (post click_text) no_sessions)) = [DocRef, QueryLatest, SetNew] \<or>
    snd (snd (handler node (env_at 1) (post click_text) no_sessions)) = [DocRef, QueryLatest, UpdateAppend]"
    by (simp add: lit_simps)
  from branch_selection [where st = no_sessions and e = "env_at 1",
      OF not_options parse_node(3) normalize_node(2)] r
  have 2: "take 3 (snd (snd (handler node (env_at 1) (post end_text) no_sessions))) =
       [DocRef, QueryLatest, QueryLatestForEnd]"
    by (simp add: lit_simps)
  from branch_selection [where st = no_sessions and e = "env_at 1",
      OF not_options parse_node(5) normalize_node(3)] r
  have 3: "handler node (env_at 1) (post bare_text) no_sessions =
       (\<lparr>statusCode = 200, headers = cors (env_at 1) (post bare_text),
         body = NotUpdated (lit ''Session not updated.'') (lit ''42'')\<rparr>,
        no_sessions, [DocRef, QueryLatest])"
    by simp
  from branch_selection [where st = no_sessions and e = "env_at 1",
      OF not_options parse_node_more(1) normalize_node(1)] r
  have 4: "handler node (env_at 1) (post zero_text) no_sessions =
       (\<lparr>statusCode = 200, headers = cors (env_at 1) (post zero_text),
         body = NotUpdated (lit ''Session not updated.'') (lit ''42'')\<rparr>,
        no_sessions, [DocRef, QueryLatest])"
    by (simp add: lit_simps)
  from 1 2 3 4 show ?thesis by blast
qed

text \<open>
  Claim C5. Invocations run one after the other from a store without sessions, with
  server timestamps that increase from one invocation to the next, whatever the events
  and whichever calls throw: after every one of them each sub-collection holds at most
  one session whose \<open>endedAt\<close> is null. (Every invocation is a \<open>transition\<close>, by
  \<open>handler_transition\<close>: a session is started only where the latest one is missing or
  closed, and appending and closing never set \<open>endedAt\<close> to null.)
\<close>

theorem at_most_one_open:
  assumes "sorted_wrt (<) (map (\<lambda>r. now (fst r)) reqs)"
  shows "length (open_sessions (run rt (take k reqs) no_sessions) p) \<le> 1"
proof -
  have "store_inv 0 (no_sessions :: 'n store)" by (simp add: store_inv_def no_sessions_def)
  moreover from assms have "sorted_wrt (<) (map (\<lambda>r. now (fst r)) (take k reqs))"
    by (simp add: take_map [symmetric] sorted_wrt_take)
  ultimately obtain T' where "store_inv T' (run rt (take k reqs) no_sessions)"
    using run_inv [of 0 no_sessions "take k reqs" rt] by auto
  then show ?thesis by (rule inv_one_open)
qed

text \<open>The scenario of the visitor: four invocations at the times 1, 2, 3 and 4.\<close>

theorem at_most_one_open_witness:
  "sorted_wrt (<) (map (\<lambda>r. now (fst r)) scenario)
   \<and> length (open_sessions (run node (take 4 scenario) no_sessions) shop_sessions) \<le> 1"
proof -
  have s: "sorted_wrt (<) (map (\<lambda>r. now (fst r)) scenario)"
    by (simp add: scenario_def)
  from s at_most_one_open [OF s, of node 4 shop_sessions] show ?thesis by simp
qed

text \<open>
  Claim C6, as the code has it. Normalizing the result of a normalization returns it
  unchanged. For every integer \<open>k\<close> of magnitude below \<open>2^53\<close>, the number \<open>k\<close>, the string of
  the decimal digits of \<open>k\<close> and that string with whitespace around it are all normalized
  to the string of the digits. Every number is normalized to the string \<open>toString\<close> makes
  of it, when that string neither starts nor ends with whitespace.
\<close>

theorem fingerprint_normalization:
  "(\<forall>s. normalize_fingerprint rt fp = Inr s \<longrightarrow> normalize_fingerprint rt (Some (JStr s)) = Inr s)
   \<and> (\<forall>k. \<bar>k\<bar> < 2 ^ 53 \<longrightarrow>
         normalize_fingerprint rt (Some (JNum (Integer k))) = Inr (decimal k) \<and>
         normalize_fingerprint rt (Some (JStr (decimal k))) = Inr (decimal k) \<and>
         (\<forall>a c. (\<forall>u\<in>set a. is_ws u) \<and> (\<forall>u\<in>set c. is_ws u) \<longrightarrow>
            normalize_fingerprint rt (Some (JStr (a @ decimal k @ c))) = Inr (decimal k)))
   \<and> (\<forall>n. toString rt n \<noteq> [] \<and> \<not> is_ws (hd (toString rt n)) \<and> \<not> is_ws (last (toString rt n)) \<longrightarrow>
         normalize_fingerprint rt (Some (JNum n)) = Inr (toString rt n))"
proof (intro conjI allI impI)
  fix s assume "normalize_fingerprint rt fp = Inr s"
  then obtain t where "s = trim t" "trim t \<noteq> []"
    by (auto simp: normalize_fingerprint_def split: option.splits json.splits if_splits)
  then show "normalize_fingerprint rt (Some (JStr s)) = Inr s"
    by (simp add: normalize_fingerprint_def trim_idem)
next
  fix k :: int assume "\<bar>k\<bar> < 2 ^ 53"
  then show "normalize_fingerprint rt (Some (JNum (Integer k))) = Inr (decimal k)"
    by (simp add: normalize_fingerprint_def toString_safe trim_decimal decimal_not_Nil)
next
  fix k
  show "normalize_fingerprint rt (Some (JStr (decimal k))) = Inr (decimal k)"
    by (simp add: normalize_fingerprint_def trim_decimal decimal_not_Nil)
next
  fix k a c assume "(\<forall>u\<in>set a. is_ws u) \<and> (\<forall>u\<in>set c. is_ws u)"
  then have "trim (a @ decimal k @ c) = decimal k" by (simp add: trim_padded trim_decimal)
  then show "normalize_fingerprint rt (Some (JStr (a @ decimal k @ c))) = Inr (decimal k)"
    by (simp add: normalize_fingerprint_def decimal_not_Nil)
next
  fix n
  assume a: "toString rt n \<noteq> [] \<and> \<not> is_ws (hd (toString rt n)) \<and> \<not> is_ws (last (toString rt n))"
  then have "trim (toString rt n) = toString rt n" by (simp add: trim_unchanged)
  with a show "normalize_fingerprint rt (Some (JNum n)) = Inr (toString rt n)"
    by (simp add: normalize_fingerprint_def)
qed

text \<open>
  Claim C6 as it is stated gives every integer and the string of its digits the same
  normalized fingerprint. The number \<open>10^21\<close> is normalized to \<open>"1e+21"\<close> and the string of
  its digits to itself. The integer \<open>9007199254740993\<close> in a body is parsed as
  \<open>9007199254740992\<close> and normalized to the digits of that number, the string
  \<open>"9007199254740993"\<close> to itself.
\<close>

theorem fingerprint_normalization_counterexample:
  "normalize_fingerprint node (Some (JNum (Integer 1000000000000000000000))) = Inr (lit ''1e+21'')
   \<and> normalize_fingerprint node (Some (JStr (decimal 1000000000000000000000))) =
       Inr (lit ''1000000000000000000000'')
   \<and> lit ''1e+21'' \<noteq> lit ''1000000000000000000000''
   \<and> JSON_parse node (body_text (post rounded_text)) = Some rounded_body
   \<and> normalize_fingerprint node (property rounded_body (lit ''fingerprint'')) =
       Inr (lit ''9007199254740992'')
   \<and> normalize_fingerprint node (Some (JStr (decimal 9007199254740993))) =
       Inr (lit ''9007199254740993'')
   \<and> lit ''9007199254740992'' \<noteq> lit ''9007199254740993''"
proof -
  have t: "toString node (Integer 1000000000000000000000) = lit ''1e+21''"
    "toString node (Integer 9007199254740992) = lit ''9007199254740992''"
    by (simp_all add: toString_def node_def)
  have 1: "trim (lit ''1e+21'') = lit ''1e+21''"
    by (rule trim_unchanged) (simp_all add: lit_def is_ws_def)
  have 2: "trim (lit ''1000000000000000000000'') = lit ''1000000000000000000000''"
    by (rule trim_unchanged) (simp_all add: lit_def is_ws_def)
  have 3: "trim (lit ''9007199254740992'') = lit ''9007199254740992''"
    by (rule trim_unchanged) (simp_all add: lit_def is_ws_def)
  have 4: "trim (lit ''9007199254740993'') = lit ''9007199254740993''"
    by (rule trim_unchanged) (simp_all add: lit_def is_ws_def)
  have p: "property rounded_body (lit ''fingerprint'') = Some (JNum (Integer 9007199254740992))"
    by (simp add: rounded_body_def fmlookup_of_list lit_simps)
  show ?thesis
    by (simp add: normalize_fingerprint_def t 1 2 3 4 p decimal_sextillion decimal_unsafe
        parse_node_more(8) lit_simps)
qed

text \<open>
  The number \<open>42\<close>, the string \<open>"42"\<close> and the string \<open>" 42 "\<close>; and the number \<open>10^21\<close>,
  normalized to what \<open>toString\<close> makes of it.
\<close>

theorem fingerprint_normalization_witness:
  "normalize_fingerprint node (Some (JNum (Integer 42))) = Inr (lit ''42'')
   \<and> normalize_fingerprint node (Some (JStr (lit ''42''))) = Inr (lit ''42'')
   \<and> normalize_fingerprint node (Some (JStr (lit '' 42 ''))) = Inr (lit ''42'')
   \<and> normalize_fingerprint node (Some (JNum (Integer 1000000000000000000000))) = Inr (lit ''1e+21'')"
proof -
  have r: "\<bar>42 :: int\<bar> < 2 ^ 53" by simp
  have w: "(\<forall>u\<in>set (lit '' ''). is_ws u) \<and> (\<forall>u\<in>set (lit '' ''). is_ws u)"
    by (simp add: lit_def is_ws_def)
  have e: "toString node (Integer 1000000000000000000000) = lit ''1e+21''"
    by (simp add: toString_def node_def)
  have e': "lit ''1e+21'' \<noteq> [] \<and> \<not> is_ws (hd (lit ''1e+21'')) \<and> \<not> is_ws (last (lit ''1e+21''))"
    by (simp add: lit_def is_ws_def)
  note t = fingerprint_normalization [of node "Some (JNum (Integer 42))"]
  from t r have 1: "normalize_fingerprint node (Some (JNum (Integer 42))) = Inr (decimal 42)"
    and 2: "normalize_fingerprint node (Some (JStr (decimal 42))) = Inr (decimal 42)"
    by blast+
  from t r w have 3: "normalize_fingerprint node (Some (JStr (lit '' '' @ decimal 42 @ lit '' ''))) =
      Inr (decimal 42)"
    by blast
  from t e e' have 4: "normalize_fingerprint node (Some (JNum (Integer 1000000000000000000000))) =
      Inr (lit ''1e+21'')"
    by metis
  have "lit '' '' @ lit ''42'' @ lit '' '' = lit '' 42 ''" by (simp add: lit_def)
  with 1 2 3 4 show ?thesis by (simp add: decimal_42)
qed

text \<open>
  Claim C7, as the code has it. For a request whose body parses to a value other than
  \<open>null\<close>: when its fingerprint is neither a number nor a string the response is 400
  "Fingerprint must be a string or number."; when it is a string, or the string made of a
  number, that trims to the empty string (one of whitespace only) the response is 400
  "Fingerprint missing.". In both cases the handler has made no call of the SDK, so no
  read and no write, and the store is unchanged, whatever the environment.
\<close>

theorem fingerprint_rejected:
  assumes "httpMethod ev \<noteq> lit ''OPTIONS''"
    and "JSON_parse rt (body_text ev) = Some b"
    and "b \<noteq> JNull"
  shows "((\<forall>n. property b (lit ''fingerprint'') \<noteq> Some (JNum n)) \<and>
          (\<forall>s. property b (lit ''fingerprint'') \<noteq> Some (JStr s)) \<longrightarrow>
          handler rt e ev st =
            (\<lparr>statusCode = 400, headers = cors e ev,
              body = ErrorBody (lit ''Fingerprint must be a string or number.'')\<rparr>, st, []))
       \<and> (\<forall>s. (property b (lit ''fingerprint'') = Some (JStr s) \<or>
               (\<exists>n. property b (lit ''fingerprint'') = Some (JNum n) \<and> s = toString rt n)) \<and>
              trim s = [] \<longrightarrow>
          handler rt e ev st =
            (\<lparr>statusCode = 400, headers = cors e ev,
              body = ErrorBody (lit ''Fingerprint missing.'')\<rparr>, st, []))
       \<and> (\<forall>s. trim s = [] \<longleftrightarrow> (\<forall>c\<in>set s. is_ws c))"
proof (intro conjI impI allI)
  note h = handler_def try_block_def normalize_def normalize_fingerprint_def respond_def
  {
    assume "(\<forall>n. property b (lit ''fingerprint'') \<noteq> Some (JNum n)) \<and>
          (\<forall>s. property b (lit ''fingerprint'') \<noteq> Some (JStr s))"
    then show "handler rt e ev st =
            (\<lparr>statusCode = 400, headers = cors e ev,
              body = ErrorBody (lit ''Fingerprint must be a string or number.'')\<rparr>, st, [])"
      using assms by (auto simp: h split: option.splits json.splits)
  }
  {
    fix s assume "(property b (lit ''fingerprint'') = Some (JStr s) \<or>
               (\<exists>n. property b (lit ''fingerprint'') = Some (JNum n) \<and> s = toString rt n)) \<and>
              trim s = []"
    then show "handler rt e ev st =
            (\<lparr>statusCode = 400, headers = cors e ev,
              body = ErrorBody (lit ''Fingerprint missing.'')\<rparr>, st, [])"
      using assms by (auto simp: h)
  }
  fix s show "trim s = [] \<longleftrightarrow> (\<forall>c\<in>set s. is_ws c)" by (rule trim_Nil_iff)
qed

text \<open>
  Claim C7 as it is stated gives a 400 response to every request whose fingerprint is
  neither a string nor a number. The body \<open>null\<close> has no fingerprint; the destructuring of
  line 69 throws on it, and the response is 500. No call of the SDK is made.
\<close>

theorem fingerprint_rejected_counterexample:
  "JSON_parse node (body_text (post (lit ''null''))) = Some JNull
   \<and> property JNull (lit ''fingerprint'') = None
   \<and> handler node (env_at 1) (post (lit ''null'')) no_sessions =
     (\<lparr>statusCode = 500, headers = cors (env_at 1) (post (lit ''null'')),
       body = InternalError (lit ''Internal Server Error'') DestructureNull\<rparr>, no_sessions, [])"
  by (simp add: eval parse_node_more(6) normalize_def)

text \<open>A fingerprint that is \<open>true\<close>, and one of two spaces.\<close>

theorem fingerprint_rejected_witness:
  "handler node (env_at 1) (post bool_text) no_sessions =
     (\<lparr>statusCode = 400, headers = cors (env_at 1) (post bool_text),
       body = ErrorBody (lit ''Fingerprint must be a string or number.'')\<rparr>, no_sessions, [])
   \<and> handler node (env_at 1) (post blank_text) no_sessions =
     (\<lparr>statusCode = 400, headers = cors (env_at 1) (post blank_text),
       body = ErrorBody (lit ''Fingerprint missing.'')\<rparr>, no_sessions, [])"
proof -
  have b: "trim (lit ''  '') = []" by (simp add: trim_def lit_def is_ws_def)
  from fingerprint_rejected [OF not_options parse_node_rejected(2), of "env_at 1" no_sessions]
  have 1: "handler node (env_at 1) (post bool_text) no_sessions =
     (\<lparr>statusCode = 400, headers = cors (env_at 1) (post bool_text),
       body = ErrorBody (lit ''Fingerprint must be a string or number.'')\<rparr>, no_sessions, [])"
    by (simp add: fmlookup_of_list lit_simps)
  from fingerprint_rejected [OF not_options parse_node_rejected(1), of "env_at 1" no_sessions] b
  have 2: "handler node (env_at 1) (post blank_text) no_sessions =
     (\<lparr>statusCode = 400, headers = cors (env_at 1) (post blank_text),
       body = ErrorBody (lit ''Fingerprint missing.'')\<rparr>, no_sessions, [])"
    by (simp add: fmlookup_of_list lit_simps)
  from 1 2 show ?thesis by simp
qed

text \<open>
  Claim C8. A request that passes the normalizer, the references and the query of line
  99, and selects neither the append/start branch nor the close branch, is answered 200
  with the message "Session not updated." and the fingerprint. The store is unchanged and
  no write is made: the query of line 99, which precedes the choice of the branch, is the
  only access to the store.
\<close>

theorem no_op_branch:
  assumes "httpMethod ev \<noteq> lit ''OPTIONS''"
    and "JSON_parse rt (body_text ev) = Some b"
    and "normalize rt b = Inr (Inr req)"
    and "sessionsCollRef e req = Inr p"
    and "throws e QueryLatest = None"
    and "\<not> (truthy rt (data req) \<and>
            (\<not> truthy rt (action req) \<or> action req = Some (JStr (lit ''append''))))"
    and "action req \<noteq> Some (JStr (lit ''end''))"
  shows "handler rt e ev st =
           (\<lparr>statusCode = 200, headers = cors e ev,
             body = NotUpdated (lit ''Session not updated.'') (fingerprint req)\<rparr>,
            st, [DocRef, QueryLatest])
       \<and> filter is_write (snd (snd (handler rt e ev st))) = []
       \<and> filter is_read (snd (snd (handler rt e ev st))) = [QueryLatest]"
  by (simp add: handler_lifecycle [OF assms(1-3)] lifecycle_noop [OF assms(4-7)] respond_def
      is_write_def is_read_def)

text \<open>A request with neither \<open>data\<close> nor \<open>action\<close>, while a session is open.\<close>

theorem no_op_branch_witness:
  "handler node (env_at 2) (post bare_text)
       (no_sessions(shop_sessions := [shop_session 1 1 None [JStr (lit ''click'')]])) =
     (\<lparr>statusCode = 200, headers = cors (env_at 2) (post bare_text),
       body = NotUpdated (lit ''Session not updated.'') (lit ''42'')\<rparr>,
      no_sessions(shop_sessions := [shop_session 1 1 None [JStr (lit ''click'')]]),
      [DocRef, QueryLatest])"
proof -
  have 1: "\<not> (truthy node (data (shop_request None None)) \<and>
            (\<not> truthy node (action (shop_request None None)) \<or>
             action (shop_request None None) = Some (JStr (lit ''append''))))"
    and 2: "action (shop_request None None) \<noteq> Some (JStr (lit ''end''))"
    by simp_all
  from no_op_branch [OF not_options parse_node(5) normalize_node(3) shop_ref env_at_simps(1) 1 2]
  show ?thesis by simp
qed

text \<open>
  Claim C9. Of the latest session, only \<open>endedAt\<close> decides what the two branches do. The
  append/start branch updates it when \<open>endedAt\<close> is null and starts a new session for every
  other value; the close branch updates it when \<open>endedAt\<close> is null and answers 400
  "Session has already ended." for every other value, and only then.
\<close>

theorem endedAt_discriminates:
  assumes "httpMethod ev \<noteq> lit ''OPTIONS''"
    and "JSON_parse rt (body_text ev) = Some b"
    and "normalize rt b = Inr (Inr req)"
    and "sessionsCollRef e req = Inr p"
    and "throws e QueryLatest = None"
    and "latest (st p) = Some (i, s)"
  shows "(truthy rt (data req) \<and>
            (\<not> truthy rt (action req) \<or> action req = Some (JStr (lit ''append''))) \<longrightarrow>
          snd (snd (handler rt e ev st)) =
            [DocRef, QueryLatest, if endedAt s = None then UpdateAppend else SetNew])
       \<and> (action req = Some (JStr (lit ''end'')) \<and> throws e QueryLatestForEnd = None \<longrightarrow>
          take 4 (snd (snd (handler rt e ev st))) =
            (if endedAt s = None then [DocRef, QueryLatest, QueryLatestForEnd, UpdateEnd]
             else [DocRef, QueryLatest, QueryLatestForEnd]) \<and>
          (endedAt s \<noteq> None \<longleftrightarrow>
             fst (handler rt e ev st) =
               \<lparr>statusCode = 400, headers = cors e ev,
                 body = ErrorBody (lit ''Session has already ended.'')\<rparr>))"
proof (intro conjI impI)
  note h = handler_lifecycle [OF assms(1-3)]
  note l = latest_Some [OF assms(6)]
  {
    assume a: "truthy rt (data req) \<and>
      (\<not> truthy rt (action req) \<or> action req = Some (JStr (lit ''append'')))"
    then obtain d where d: "data req = Some d" by (cases "data req") auto
    with a have t: "truthy rt (Some d)"
      and c: "\<not> truthy rt (action req) \<or> action req = Some (JStr (lit ''append''))" by auto
    show "snd (snd (handler rt e ev st)) =
            [DocRef, QueryLatest, if endedAt s = None then UpdateAppend else SetNew]"
      using assms(6) l
      by (auto simp add: h lifecycle_append [OF assms(4,5) d t c] snd_snd_respond
          append_or_start_def update_doc_def Let_def split: prod.splits option.splits)
  }
  {
    assume a: "action req = Some (JStr (lit ''end'')) \<and> throws e QueryLatestForEnd = None"
    then have e: "handler rt e ev st = respond (cors e ev)
         (case end_session e p st of (r, st', cs) \<Rightarrow> (r, st', DocRef # QueryLatest # cs))"
      by (simp add: h lifecycle_end [OF assms(4,5)])
    show "take 4 (snd (snd (handler rt e ev st))) =
            (if endedAt s = None then [DocRef, QueryLatest, QueryLatestForEnd, UpdateEnd]
             else [DocRef, QueryLatest, QueryLatestForEnd])"
      using a assms(6) l
      by (auto simp add: e snd_snd_respond end_session_def update_doc_def split: prod.splits option.splits)
    show "endedAt s \<noteq> None \<longleftrightarrow>
             fst (handler rt e ev st) =
               \<lparr>statusCode = 400, headers = cors e ev,
                 body = ErrorBody (lit ''Session has already ended.'')\<rparr>"
      using a assms(6) l
      by (auto simp add: e respond_def end_session_def update_doc_def split: prod.splits option.splits)
  }
qed

text \<open>A data point and an end request, each on an open and on a closed session.\<close>

theorem endedAt_discriminates_witness:
  "snd (snd (handler node (env_at 2) (post click_text)
       (no_sessions(shop_sessions := [shop_session 1 1 None [JStr (lit ''click'')]])))) =
     [DocRef, QueryLatest, UpdateAppend]
   \<and> snd (snd (handler node (env_at 4) (post click_text)
       (no_sessions(shop_sessions := [shop_session 1 3 (Some 3) [JStr (lit ''click'')]])))) =
     [DocRef, QueryLatest, SetNew]
   \<and> take 4 (snd (snd (handler node (env_at 2) (post end_text)
       (no_sessions(shop_sessions := [shop_session 1 1 None [JStr (lit ''click'')]]))))) =
     [DocRef, QueryLatest, QueryLatestForEnd, UpdateEnd]
   \<and> fst (handler node (env_at 4) (post end_text)
       (no_sessions(shop_sessions := [shop_session 1 3 (Some 3) [JStr (lit ''click'')]]))) =
     \<lparr>statusCode = 400, headers = cors (env_at 4) (post end_text),
       body = ErrorBody (lit ''Session has already ended.'')\<rparr>"
proof -
  let ?closed = "no_sessions(shop_sessions := [shop_session 1 3 (Some 3) [JStr (lit ''click'')]])"
  let ?opened = "no_sessions(shop_sessions := [shop_session 1 1 None [JStr (lit ''click'')]])"
  have o: "latest (?opened shop_sessions) = Some (0, shop_session 1 1 None [JStr (lit ''click'')])"
    and c: "latest (?closed shop_sessions) = Some (0, shop_session 1 3 (Some 3) [JStr (lit ''click'')])"
    by simp_all
  from endedAt_discriminates [where st = ?opened and p = shop_sessions,
      OF not_options parse_node(1) normalize_node(1) shop_ref env_at_simps(1) o]
  have 1: "snd (snd (handler node (env_at 2) (post click_text) ?opened)) =
     [DocRef, QueryLatest, UpdateAppend]"
    by (simp add: example_simps lit_simps)
  from endedAt_discriminates [where st = ?closed and p = shop_sessions,
      OF not_options parse_node(1) normalize_node(1) shop_ref env_at_simps(1) c]
  have 2: "snd (snd (handler node (env_at 4) (post click_text) ?closed)) =
     [DocRef, QueryLatest, SetNew]"
    by (simp add: example_simps lit_simps)
  from endedAt_discriminates [where st = ?opened and p = shop_sessions,
      OF not_options parse_node(3) normalize_node(2) shop_ref env_at_simps(1) o]
  have 3: "take 4 (snd (snd (handler node (env_at 2) (post end_text) ?opened))) =
     [DocRef, QueryLatest, QueryLatestForEnd, UpdateEnd]"
    by (simp add: example_simps lit_simps)
  from endedAt_discriminates [where st = ?closed and p = shop_sessions,
      OF not_options parse_node(3) normalize_node(2) shop_ref env_at_simps(1) c]
  have 4: "fst (handler node (env_at 4) (post end_text) ?closed) =
     \<lparr>statusCode = 400, headers = cors (env_at 4) (post end_text),
       body = ErrorBody (lit ''Session has already ended.'')\<rparr>"
    by (simp add: example_simps lit_simps)
  from 1 2 3 4 show ?thesis by simp
qed

text \<open>
  Claim C10. When the body of the request is absent or the empty string, the handler
  parses \<open>"{}"\<close> instead. With the empty object that \<open>JSON.parse\<close> returns for it, the
  fingerprint is missing: the response is 400 "Fingerprint must be a string or number.",
  not "Invalid JSON in request body", and the store is not accessed.
\<close>

theorem empty_body_is_empty_object:
  assumes "httpMethod ev \<noteq> lit ''OPTIONS''"
    and "event_body ev = None \<or> event_body ev = Some []"
    and "JSON_parse rt (lit ''{}'') = Some (JObj fmempty)"
  shows "handler rt e ev st =
           (\<lparr>statusCode = 400, headers = cors e ev,
             body = ErrorBody (lit ''Fingerprint must be a string or number.'')\<rparr>, st, [])
       \<and> body (fst (handler rt e ev st)) \<noteq> ErrorBody (lit ''Invalid JSON in request body'')"
proof -
  from assms(2) have "body_text ev = lit ''{}''" by (auto simp: body_text_def)
  with assms(1,3) have "handler rt e ev st =
           (\<lparr>statusCode = 400, headers = cors e ev,
             body = ErrorBody (lit ''Fingerprint must be a string or number.'')\<rparr>, st, [])"
    by (simp add: handler_def try_block_def normalize_def normalize_fingerprint_def respond_def)
  moreover have "lit ''Fingerprint must be a string or number.'' \<noteq> lit ''Invalid JSON in request body''"
    by (simp add: lit_eq_iff)
  ultimately show ?thesis by simp
qed

text \<open>A request without a body, and one whose body is the empty string.\<close>

theorem empty_body_is_empty_object_witness:
  "handler node (env_at 1)
       \<lparr>httpMethod = lit ''POST'', headers_origin = None, headers_Origin = None, event_body = None\<rparr>
       no_sessions =
     (\<lparr>statusCode = 400,
       headers = cors (env_at 1)
         \<lparr>httpMethod = lit ''POST'', headers_origin = None, headers_Origin = None, event_body = None\<rparr>,
       body = ErrorBody (lit ''Fingerprint must be a string or number.'')\<rparr>, no_sessions, [])
   \<and> handler node (env_at 1) (post []) no_sessions =
     (\<lparr>statusCode = 400, headers = cors (env_at 1) (post []),
       body = ErrorBody (lit ''Fingerprint must be a string or number.'')\<rparr>, no_sessions, [])"
proof -
  let ?ev = "\<lparr>httpMethod = lit ''POST'', headers_origin = None, headers_Origin = None, event_body = None\<rparr>"
  have p: "JSON_parse node (lit ''{}'') = Some (JObj fmempty)" by (simp add: node_def)
  have 1: "httpMethod ?ev \<noteq> lit ''OPTIONS''" by (simp add: lit_simps)
  have 2: "event_body ?ev = None \<or> event_body ?ev = Some []" by simp
  have 3: "event_body (post []) = None \<or> event_body (post []) = Some []" by (simp add: post_def)
  from empty_body_is_empty_object [OF 1 2 p, of "env_at 1" no_sessions] empty_body_is_empty_object [OF not_options 3 p, of "env_at 1" no_sessions]
  show ?thesis by simp
qed

end
